theory Spec2Isabelle
  imports Complex_Main
begin

section \<open>Data model\<close>

text \<open>
  A Python \<open>str\<close> is a sequence of Unicode code points; it is modelled as a list of
  natural numbers, so that \<open>length\<close> counts what Python's \<open>len\<close> counts. \<open>ustr\<close>
  turns an ASCII literal into such a string.
\<close>

type_synonym ustring = "nat list"

definition ustr :: "string \<Rightarrow> ustring" where
  "ustr s = map of_char s"

text \<open>
  The values \<open>json.loads\<close> produces. A \<open>dict\<close> is an association list in insertion
  order, looked up with \<open>map_of\<close>.
\<close>

datatype json =
    JNull
  | JBool bool
  | JInt int
  | JFloat real
  | JString ustring
  | JArray "json list"
  | JObject "(ustring \<times> json) list"

text \<open>\<open>k in d\<close> for a dict \<open>d\<close>.\<close>

definition has_key :: "(ustring \<times> json) list \<Rightarrow> ustring \<Rightarrow> bool" where
  "has_key d k = (map_of d k \<noteq> None)"

text \<open>The exceptions that reach the caller of the code modelled here.\<close>

datatype py_error = AttributeError | TypeError | ValueError | RecursionError

text \<open>
  \<open>json.loads\<close> belongs to Python's standard library, not to this repository: the
  decoder is a parameter of the model, of type \<open>decoder\<close>. A call has three outcomes:
  it returns a value; it raises \<open>json.JSONDecodeError\<close>, on a text that is not a JSON
  document; or it raises an exception of another class, which a handler for
  \<open>json.JSONDecodeError\<close> does not catch. \<open>json.loads\<close> does so with \<open>ValueError\<close> on an
  integer literal of more digits than the interpreter's limit for conversion (4300 by
  default), and with \<open>RecursionError\<close> on arrays nested too deeply.
\<close>

datatype decoded = Decoded json | JSONDecodeError | Uncaught py_error

type_synonym decoder = "ustring \<Rightarrow> decoded"

section \<open>The scanner and selector: \<open>read_raw_hotwords\<close> of \<open>wetype_raw.py\<close>\<close>

definition KEY :: ustring where
  "KEY = ustr ''hotWordList''"

definition WINDOW :: nat where
  "WINDOW = 100000"

definition LBRACKET :: nat where
  "LBRACKET = 91"

definition RBRACKET :: nat where
  "RBRACKET = 93"

text \<open>
  \<open>[m.start() for m in re.finditer(r'hotWordList', text)]\<close>: the offsets of the
  non-overlapping occurrences of the literal, from left to right. \<open>i\<close> is the offset of
  \<open>s\<close> in the text.
\<close>

function finditer_from :: "nat \<Rightarrow> ustring \<Rightarrow> nat list" where
  "finditer_from i s =
     (if s = [] then []
      else if take (length KEY) s = KEY
        then i # finditer_from (i + length KEY) (drop (length KEY) s)
      else finditer_from (i + 1) (tl s))"
  by pat_completeness auto
termination
  by (relation "measure (\<lambda>(i, s). length s)") (auto simp: KEY_def ustr_def)

declare finditer_from.simps [simp del]

definition hotword_positions :: "ustring \<Rightarrow> nat list" where
  "hotword_positions text = finditer_from 0 text"

text \<open>\<open>s.find(c)\<close>, with \<open>None\<close> for the result \<open>-1\<close>.\<close>

fun find_char :: "nat \<Rightarrow> ustring \<Rightarrow> nat option" where
  "find_char c [] = None"
| "find_char c (x # xs) =
     (if x = c then Some 0 else map_option Suc (find_char c xs))"

text \<open>
  The bracket-matching loop over \<open>enumerate(remaining[json_start:])\<close>: \<open>cnt\<close> is
  \<open>bracket_count\<close>, \<open>i\<close> the index of the head of the list. The result is the index
  at which the loop breaks, \<open>None\<close> when it runs off the end (\<open>json_end\<close> stays \<open>-1\<close>).
\<close>

fun match_bracket :: "int \<Rightarrow> nat \<Rightarrow> ustring \<Rightarrow> nat option" where
  "match_bracket cnt i [] = None"
| "match_bracket cnt i (c # cs) =
     (if c = LBRACKET then match_bracket (cnt + 1) (i + 1) cs
      else if c = RBRACKET then
        (if cnt - 1 = 0 then Some i else match_bracket (cnt - 1) (i + 1) cs)
      else match_bracket cnt (i + 1) cs)"

text \<open>\<open>text[search_start:search_start + 100000]\<close>.\<close>

definition remaining_of :: "ustring \<Rightarrow> nat \<Rightarrow> ustring" where
  "remaining_of text pos = take WINDOW (drop (pos + length KEY) text)"

text \<open>
  Lines 51 to 76: the span \<open>json_str\<close> cut out for the occurrence at \<open>pos\<close>, \<open>None\<close>
  on either \<open>continue\<close>.
\<close>

definition candidate_span :: "ustring \<Rightarrow> nat \<Rightarrow> ustring option" where
  "candidate_span text pos =
     (let remaining = remaining_of text pos in
      case find_char LBRACKET remaining of
        None \<Rightarrow> None
      | Some json_start \<Rightarrow>
          (case match_bracket 0 0 (drop json_start remaining) of
             None \<Rightarrow> None
           | Some i \<Rightarrow>
               (let json_end = json_start + i + 1 in
                Some (take (json_end - json_start) (drop json_start remaining)))))"

text \<open>
  Lines 80 to 82: what is appended to \<open>all_hotwords\<close> for a decoded value, \<open>None\<close>
  when the value is not appended.
\<close>

fun accept_hotwords :: "json \<Rightarrow> json list option" where
  "accept_hotwords (JArray hotwords) =
     (case hotwords of
        [] \<Rightarrow> None
      | h # _ \<Rightarrow>
          (case h of
             JObject d \<Rightarrow>
               (if has_key d (ustr ''hw_id'') \<or> has_key d (ustr ''key'')
                   \<or> has_key d (ustr ''text'')
                then Some hotwords else None)
           | _ \<Rightarrow> None))"
| "accept_hotwords _ = None"

text \<open>
  The \<open>for pos in hotword_positions\<close> loop, \<open>acc\<close> being \<open>all_hotwords\<close>. A
  \<open>json.JSONDecodeError\<close> is caught and passed over (lines 84 and 85); any other
  exception of \<open>json.loads\<close> leaves the loop and the function.
\<close>

fun scan_loop ::
  "decoder \<Rightarrow> ustring \<Rightarrow> json list list \<Rightarrow> nat list \<Rightarrow> py_error + json list list" where
  "scan_loop loads text acc [] = Inr acc"
| "scan_loop loads text acc (pos # ps) =
     (case candidate_span text pos of
        None \<Rightarrow> scan_loop loads text acc ps
      | Some json_str \<Rightarrow>
          (case loads json_str of
             Uncaught e \<Rightarrow> Inl e
           | JSONDecodeError \<Rightarrow> scan_loop loads text acc ps
           | Decoded v \<Rightarrow>
               (case accept_hotwords v of
                  None \<Rightarrow> scan_loop loads text acc ps
                | Some hotwords \<Rightarrow> scan_loop loads text (acc @ [hotwords]) ps)))"

text \<open>
  \<open>max(xs, key=len)\<close> on a non-empty list: the running best is replaced only by a
  strictly longer item.
\<close>

definition max_by_len :: "'a list \<Rightarrow> 'a list list \<Rightarrow> 'a list" where
  "max_by_len x xs = foldl (\<lambda>best y. if length best < length y then y else best) x xs"

definition all_hotwords :: "decoder \<Rightarrow> ustring \<Rightarrow> py_error + json list list" where
  "all_hotwords loads text = scan_loop loads text [] (hotword_positions text)"

definition read_raw_hotwords :: "decoder \<Rightarrow> ustring \<Rightarrow> py_error + json list" where
  "read_raw_hotwords loads text =
     (case all_hotwords loads text of
        Inl e \<Rightarrow> Inl e
      | Inr [] \<Rightarrow> Inr []
      | Inr (x # xs) \<Rightarrow> Inr (max_by_len x xs))"

text \<open>
  What the occurrence at \<open>pos\<close> contributes to \<open>all_hotwords\<close>: the decoded and
  accepted list, if there is one; and the exception that leaves the loop at \<open>pos\<close>, if
  there is one. They are used to state properties of the loop.
\<close>

definition accepted_at :: "decoder \<Rightarrow> ustring \<Rightarrow> nat \<Rightarrow> json list option" where
  "accepted_at loads text pos =
     (case candidate_span text pos of
        None \<Rightarrow> None
      | Some s \<Rightarrow> (case loads s of Decoded v \<Rightarrow> accept_hotwords v | _ \<Rightarrow> None))"

definition raises_at :: "decoder \<Rightarrow> ustring \<Rightarrow> nat \<Rightarrow> py_error option" where
  "raises_at loads text pos =
     (case candidate_span text pos of
        None \<Rightarrow> None
      | Some s \<Rightarrow> (case loads s of Uncaught e \<Rightarrow> Some e | _ \<Rightarrow> None))"

text \<open>
  Two notions used to state what the bracket matcher computes: the nesting depth of a text
  (opening minus closing brackets), and the part of the search window that begins at its
  first opening bracket.
\<close>

fun depth :: "ustring \<Rightarrow> int" where
  "depth [] = 0"
| "depth (c # cs) =
     (if c = LBRACKET then 1 else if c = RBRACKET then - 1 else 0) + depth cs"

definition from_bracket :: "ustring \<Rightarrow> nat \<Rightarrow> ustring" where
  "from_bracket text pos = dropWhile (\<lambda>c. c \<noteq> LBRACKET) (remaining_of text pos)"

section \<open>Python values and exceptions\<close>

definition bind_err :: "py_error + 'a \<Rightarrow> ('a \<Rightarrow> py_error + 'b) \<Rightarrow> py_error + 'b" where
  "bind_err r f = (case r of Inl e \<Rightarrow> Inl e | Inr x \<Rightarrow> f x)"

text \<open>\<open>hw.get(k, default)\<close>: only a \<open>dict\<close> has the method.\<close>

fun dict_get :: "json \<Rightarrow> ustring \<Rightarrow> json \<Rightarrow> py_error + json" where
  "dict_get (JObject d) k dflt = Inr (case map_of d k of None \<Rightarrow> dflt | Some v \<Rightarrow> v)"
| "dict_get _ k dflt = Inl AttributeError"

text \<open>
  \<open>str.isspace\<close> on one code point, as CPython defines whitespace, and \<open>s.strip()\<close>.
\<close>

definition py_isspace :: "nat \<Rightarrow> bool" where
  "py_isspace c =
     ((9 \<le> c \<and> c \<le> 13) \<or> (28 \<le> c \<and> c \<le> 32) \<or> c = 133 \<or> c = 160 \<or> c = 5760
      \<or> (8192 \<le> c \<and> c \<le> 8202) \<or> c = 8232 \<or> c = 8233 \<or> c = 8239 \<or> c = 8287
      \<or> c = 12288)"

definition py_strip :: "ustring \<Rightarrow> ustring" where
  "py_strip s = rev (dropWhile py_isspace (rev (dropWhile py_isspace s)))"

text \<open>\<open>v.strip()\<close> on a decoded value: only a \<open>str\<close> has the method.\<close>

fun str_strip :: "json \<Rightarrow> py_error + ustring" where
  "str_strip (JString s) = Inr (py_strip s)"
| "str_strip _ = Inl AttributeError"

text \<open>Truth value of a decoded value, and \<open>len\<close>.\<close>

fun truthy :: "json \<Rightarrow> bool" where
  "truthy JNull = False"
| "truthy (JBool b) = b"
| "truthy (JInt i) = (i \<noteq> 0)"
| "truthy (JFloat r) = (r \<noteq> 0)"
| "truthy (JString s) = (s \<noteq> [])"
| "truthy (JArray xs) = (xs \<noteq> [])"
| "truthy (JObject d) = (d \<noteq> [])"

fun py_len :: "json \<Rightarrow> py_error + nat" where
  "py_len (JString s) = Inr (length s)"
| "py_len (JArray xs) = Inr (length xs)"
| "py_len (JObject d) = Inr (length d)"
| "py_len _ = Inl TypeError"

text \<open>\<open>str(n)\<close> for an \<open>int\<close>: the decimal digits, with a sign when negative.\<close>

function digits :: "nat \<Rightarrow> ustring" where
  "digits n = (if n < 10 then [48 + n] else digits (n div 10) @ [48 + n mod 10])"
  by pat_completeness auto
termination
  by (relation "measure id") auto

declare digits.simps [simp del]

definition str_int :: "int \<Rightarrow> ustring" where
  "str_int i = (if i < 0 then 45 # digits (nat (- i)) else digits (nat i))"

section \<open>Entry mutation: \<open>add_hotword\<close> and \<open>delete_hotword\<close>\<close>

text \<open>
  \<open>json.dumps(hotwords, ensure_ascii=False)\<close> is the standard library's too: the encoder
  is a parameter. The calls that act on the world are recorded as effects, in the order
  they are made: \<open>kv.set(value, key)\<close> on the MMKV store and \<open>restart_wetype()\<close>.
\<close>

type_synonym encoder = "json \<Rightarrow> ustring"

datatype effect = KvSet ustring ustring | RestartWeType

datatype report = NotFound ustring | Deleted nat | Added ustring

record outcome =
  out_report :: report
  out_hotwords :: "json list"
  out_effects :: "effect list"

text \<open>
  \<open>[hw for hw in hotwords if hw.get("key", "").strip() != trigger_key]\<close>, the same
  expression in \<open>wetype_raw.py\<close> and \<open>wetype_rw.py\<close>.
\<close>

fun remove_matching :: "ustring \<Rightarrow> json list \<Rightarrow> py_error + json list" where
  "remove_matching trigger_key [] = Inr []"
| "remove_matching trigger_key (hw # hws) =
     bind_err (dict_get hw (ustr ''key'') (JString [])) (\<lambda>v.
     bind_err (str_strip v) (\<lambda>k.
     bind_err (remove_matching trigger_key hws) (\<lambda>rest.
       Inr (if k \<noteq> trigger_key then hw # rest else rest))))"

text \<open>The body of \<open>delete_hotword\<close> once \<open>hotwords\<close> is read; \<open>restart\<close> tells the
  two files apart: only \<open>wetype_raw.py\<close> restarts the input method after the write.\<close>

definition delete_from :: "encoder \<Rightarrow> bool \<Rightarrow> json list \<Rightarrow> ustring \<Rightarrow> py_error + outcome" where
  "delete_from dumps restart hotwords trigger_key =
     (let original_count = length hotwords in
      bind_err (remove_matching trigger_key hotwords) (\<lambda>hotwords'.
        if length hotwords' = original_count
        then Inr \<lparr>out_report = NotFound trigger_key, out_hotwords = hotwords', out_effects = []\<rparr>
        else Inr \<lparr>out_report = Deleted (original_count - length hotwords'),
                  out_hotwords = hotwords',
                  out_effects = KvSet (dumps (JArray hotwords')) KEY
                                # (if restart then [RestartWeType] else [])\<rparr>))"

definition delete_hotword_raw :: "decoder \<Rightarrow> encoder \<Rightarrow> ustring \<Rightarrow> ustring \<Rightarrow> py_error + outcome" where
  "delete_hotword_raw loads dumps text trigger_key =
     bind_err (read_raw_hotwords loads text) (\<lambda>hotwords.
       delete_from dumps True hotwords trigger_key)"

text \<open>
  \<open>get_hotwords\<close> of \<open>wetype_rw.py\<close>: \<open>stored\<close> is what \<open>kv.getString("hotWordList")\<close>
  returns. Whatever \<open>json.loads\<close> yields is returned, a list or not; only
  \<open>json.JSONDecodeError\<close> is caught.
\<close>

definition get_hotwords :: "decoder \<Rightarrow> ustring \<Rightarrow> py_error + json" where
  "get_hotwords loads stored =
     (if stored \<noteq> [] then
        (case loads stored of
           Decoded v \<Rightarrow> Inr v
         | JSONDecodeError \<Rightarrow> Inr (JArray [])
         | Uncaught e \<Rightarrow> Inl e)
      else Inr (JArray []))"

text \<open>
  What \<open>len(hotwords)\<close> and the iteration \<open>for hw in hotwords\<close> see: the elements of a
  list, the keys of a dict, the characters of a string; anything else raises.
\<close>

fun py_iter :: "json \<Rightarrow> py_error + json list" where
  "py_iter (JArray xs) = Inr xs"
| "py_iter (JObject d) = Inr (map (\<lambda>(k, v). JString k) d)"
| "py_iter (JString s) = Inr (map (\<lambda>c. JString [c]) s)"
| "py_iter _ = Inl TypeError"

definition delete_hotword_rw :: "decoder \<Rightarrow> encoder \<Rightarrow> ustring \<Rightarrow> ustring \<Rightarrow> py_error + outcome" where
  "delete_hotword_rw loads dumps stored key =
     bind_err (get_hotwords loads stored) (\<lambda>v.
     bind_err (py_iter v) (\<lambda>hotwords.
       delete_from dumps False hotwords key))"

text \<open>
  \<open>add_hotword\<close>: \<open>now_ms\<close> is \<open>int(time.time() * 1000)\<close>. The new dict goes in front
  (\<open>hotwords.insert(0, new_hotword)\<close>) and the list is written.
\<close>

definition new_hotword :: "int \<Rightarrow> ustring \<Rightarrow> ustring \<Rightarrow> json" where
  "new_hotword now_ms trigger_key text =
     JObject [(ustr ''hw_id'', JString (str_int now_ms)),
              (ustr ''key'', JString trigger_key),
              (ustr ''text'', JString text)]"

definition add_to :: "encoder \<Rightarrow> bool \<Rightarrow> json list \<Rightarrow> int \<Rightarrow> ustring \<Rightarrow> ustring \<Rightarrow> outcome" where
  "add_to dumps restart hotwords now_ms trigger_key text =
     (let hotwords' = new_hotword now_ms trigger_key text # hotwords in
      \<lparr>out_report = Added trigger_key,
       out_hotwords = hotwords',
       out_effects = KvSet (dumps (JArray hotwords')) KEY
                     # (if restart then [RestartWeType] else [])\<rparr>)"

definition add_hotword_raw ::
  "decoder \<Rightarrow> encoder \<Rightarrow> ustring \<Rightarrow> int \<Rightarrow> ustring \<Rightarrow> ustring \<Rightarrow> py_error + outcome" where
  "add_hotword_raw loads dumps text now_ms trigger_key body =
     bind_err (read_raw_hotwords loads text) (\<lambda>hotwords.
       Inr (add_to dumps True hotwords now_ms trigger_key body))"

text \<open>In \<open>wetype_rw.py\<close> the decoded value has an \<open>insert\<close> method only if it is a list.\<close>

definition add_hotword_rw :: "decoder \<Rightarrow> encoder \<Rightarrow> ustring \<Rightarrow> int \<Rightarrow> ustring \<Rightarrow> ustring \<Rightarrow> py_error + outcome" where
  "add_hotword_rw loads dumps stored now_ms key body =
     bind_err (get_hotwords loads stored) (\<lambda>v.
       case v of
         JArray hotwords \<Rightarrow> Inr (add_to dumps False hotwords now_ms key body)
       | _ \<Rightarrow> Inl AttributeError)"

text \<open>
  The trigger key of an entry as the comparison sees it, and the entries on which the
  comparison is defined: dicts whose \<open>key\<close>, when present, is a string.
\<close>

fun stripped_key :: "json \<Rightarrow> ustring" where
  "stripped_key (JObject d) =
     (case map_of d (ustr ''key'') of Some (JString s) \<Rightarrow> py_strip s | _ \<Rightarrow> [])"
| "stripped_key _ = []"

fun is_entry :: "json \<Rightarrow> bool" where
  "is_entry (JObject d) =
     (case map_of d (ustr ''key'') of None \<Rightarrow> True | Some (JString s) \<Rightarrow> True | Some _ \<Rightarrow> False)"
| "is_entry _ = False"

section \<open>Export\<close>

text \<open>
  \<open>export_hotwords\<close> builds the dict \<open>export_data\<close> and writes it with \<open>json.dump\<close>.
  The model returns \<open>export_data\<close>, \<open>None\<close> when the function returns before writing a
  file. \<open>exported_at\<close> is the string the clock call gives
  (\<open>time.strftime("%Y-%m-%d %H:%M:%S")\<close>, or \<open>datetime.now().isoformat()\<close> in
  \<open>wetype_tool.py\<close>).
\<close>

definition export_hotwords_raw :: "decoder \<Rightarrow> ustring \<Rightarrow> ustring \<Rightarrow> py_error + json option" where
  "export_hotwords_raw loads text exported_at =
     bind_err (read_raw_hotwords loads text) (\<lambda>hotwords.
       if hotwords = [] then Inr None
       else Inr (Some (JObject [(ustr ''exported_at'', JString exported_at),
                                (ustr ''count'', JInt (int (length hotwords))),
                                (ustr ''hotwords'', JArray hotwords)])))"

definition export_hotwords_rw :: "decoder \<Rightarrow> ustring \<Rightarrow> ustring \<Rightarrow> py_error + json" where
  "export_hotwords_rw loads stored exported_at =
     bind_err (get_hotwords loads stored) (\<lambda>hotwords.
     bind_err (py_len hotwords) (\<lambda>n.
       Inr (JObject [(ustr ''exported_at'', JString exported_at),
                     (ustr ''count'', JInt (int n)),
                     (ustr ''hotwords'', hotwords)])))"

text \<open>
  \<open>parse_hotwords\<close> of \<open>wetype_tool.py\<close>, one item at a time. Slicing a value that is
  not a string and adding \<open>"..."\<close> to it raises.
\<close>

definition parse_item :: "json \<Rightarrow> py_error + json" where
  "parse_item item =
     bind_err (dict_get item (ustr ''hw_id'') (JString [])) (\<lambda>hw_id.
     bind_err (dict_get item (ustr ''key'') (JString [])) (\<lambda>key.
     bind_err (dict_get item (ustr ''text'') (JString [])) (\<lambda>body.
     bind_err (dict_get item (ustr ''timestamp'') (JInt 0)) (\<lambda>timestamp.
     bind_err (if truthy key then map_sum id JString (str_strip key) else Inr (JString [])) (\<lambda>key'.
     bind_err (py_len body) (\<lambda>n.
     bind_err (if 100 < n
               then (case body of
                       JString b \<Rightarrow> Inr (JString (take 100 b @ ustr ''...''))
                     | _ \<Rightarrow> Inl TypeError)
               else Inr body) (\<lambda>text_preview.
       Inr (JObject [(ustr ''id'', hw_id),
                     (ustr ''key'', key'),
                     (ustr ''text'', body),
                     (ustr ''timestamp'', timestamp),
                     (ustr ''text_preview'', text_preview)]))))))))"

fun parse_hotwords :: "json list \<Rightarrow> py_error + json list" where
  "parse_hotwords [] = Inr []"
| "parse_hotwords (item # items) =
     bind_err (parse_item item) (\<lambda>hw.
     bind_err (parse_hotwords items) (\<lambda>hws. Inr (hw # hws)))"

text \<open>
  \<open>export_hotwords\<close> of \<open>wetype_tool.py\<close>: \<open>raw_data\<close> is what \<open>read_hotwords_raw()\<close>
  returned (\<open>None\<close> or a list), \<open>source\<close> the expanded \<open>WETYPE_MMKV_PATH\<close>.
\<close>

definition export_hotwords_tool ::
  "json list option \<Rightarrow> ustring \<Rightarrow> ustring \<Rightarrow> py_error + json option" where
  "export_hotwords_tool raw_data source exported_at =
     (case raw_data of
        None \<Rightarrow> Inr None
      | Some [] \<Rightarrow> Inr None
      | Some items \<Rightarrow>
          bind_err (parse_hotwords items) (\<lambda>hotwords.
            Inr (Some (JObject [(ustr ''exported_at'', JString exported_at),
                                (ustr ''count'', JInt (int (length hotwords))),
                                (ustr ''source'', JString source),
                                (ustr ''hotwords'', JArray hotwords)]))))"

text \<open>The field names of a dict, in order.\<close>

fun fields :: "json \<Rightarrow> ustring list" where
  "fields (JObject d) = map fst d"
| "fields _ = []"

section \<open>\<open>read_hotwords_raw\<close> of \<open>wetype_tool.py\<close>\<close>

text \<open>
  The pattern loop, lines 51 to 60. \<open>re.findall\<close> is the standard library's: the loop is
  modelled over the lists of matches it returns, one list for each pattern. \<open>Inr None\<close>
  means that the loops end without returning; an exception other than
  \<open>json.JSONDecodeError\<close> leaves the function.
\<close>

fun try_matches :: "decoder \<Rightarrow> ustring list \<Rightarrow> py_error + json list option" where
  "try_matches loads [] = Inr None"
| "try_matches loads (m # ms) =
     (case loads m of
        Uncaught e \<Rightarrow> Inl e
      | JSONDecodeError \<Rightarrow> try_matches loads ms
      | Decoded (JArray d) \<Rightarrow> (if 0 < length d then Inr (Some d) else try_matches loads ms)
      | Decoded _ \<Rightarrow> try_matches loads ms)"

fun try_patterns :: "decoder \<Rightarrow> ustring list list \<Rightarrow> py_error + json list option" where
  "try_patterns loads [] = Inr None"
| "try_patterns loads (matches # rest) =
     (case try_matches loads matches of
        Inl e \<Rightarrow> Inl e
      | Inr (Some d) \<Rightarrow> Inr (Some d)
      | Inr None \<Rightarrow> try_patterns loads rest)"

text \<open>\<open>content.split('\n')\<close>; the code point 10 is the newline.\<close>

fun split_lines :: "ustring \<Rightarrow> ustring list" where
  "split_lines [] = [[]]"
| "split_lines (c # cs) =
     (if c = 10 then [] # split_lines cs
      else (case split_lines cs of [] \<Rightarrow> [[c]] | l # ls \<Rightarrow> (c # l) # ls))"

text \<open>\<open>s.rstrip()\<close>, \<open>s.endswith(']')\<close> and \<open>s.startswith('[')\<close>.\<close>

definition py_rstrip :: "ustring \<Rightarrow> ustring" where
  "py_rstrip s = rev (dropWhile py_isspace (rev s))"

definition endswith_rbracket :: "ustring \<Rightarrow> bool" where
  "endswith_rbracket s = (s \<noteq> [] \<and> last s = RBRACKET)"

definition startswith_lbracket :: "ustring \<Rightarrow> bool" where
  "startswith_lbracket s = (case s of [] \<Rightarrow> False | c # _ \<Rightarrow> c = LBRACKET)"

text \<open>
  Lines 71 to 73: the following lines are appended to \<open>json_str\<close> until it ends, after
  stripping, with a closing bracket, or the lines run out.
\<close>

fun join_lines :: "ustring \<Rightarrow> ustring list \<Rightarrow> ustring" where
  "join_lines json_str [] = json_str"
| "join_lines json_str (l # ls) =
     (if endswith_rbracket (py_rstrip json_str) then json_str else join_lines (json_str @ l) ls)"

text \<open>
  The fallback, lines 64 to 79, over the lines from index \<open>i\<close> on. There is a next line
  when \<open>i + 1 < len(lines)\<close>. A decoded list is returned whatever its length; the bare
  \<open>except\<close> passes over every exception of \<open>json.loads\<close>.
\<close>

fun fallback_loop :: "decoder \<Rightarrow> ustring list \<Rightarrow> json list option" where
  "fallback_loop loads [] = None"
| "fallback_loop loads [line] = None"
| "fallback_loop loads (line # next_line # after) =
     (if line = KEY \<and> startswith_lbracket next_line then
        (case loads (join_lines next_line after) of
           Decoded (JArray data) \<Rightarrow> Some data
         | _ \<Rightarrow> fallback_loop loads (next_line # after))
      else fallback_loop loads (next_line # after))"

text \<open>
  The function: \<open>file_exists\<close> is \<open>os.path.exists(WETYPE_MMKV_PATH)\<close>, \<open>content\<close> the
  output of \<open>strings\<close> on the file, and \<open>matches\<close> the list
  \<open>[re.findall(p, content, re.DOTALL) for p in patterns]\<close>. The result is the value
  returned: \<open>None\<close> or a list.
\<close>

definition read_hotwords_raw ::
  "bool \<Rightarrow> decoder \<Rightarrow> ustring list list \<Rightarrow> ustring \<Rightarrow> py_error + json list option" where
  "read_hotwords_raw file_exists loads matches content =
     (if \<not> file_exists then Inr None
      else (case try_patterns loads matches of
              Inl e \<Rightarrow> Inl e
            | Inr (Some d) \<Rightarrow> Inr (Some d)
            | Inr None \<Rightarrow> Inr (fallback_loop loads (split_lines content))))"

text \<open>\<open>isinstance(v, dict)\<close>.\<close>

fun is_dict :: "json \<Rightarrow> bool" where
  "is_dict (JObject d) = True"
| "is_dict _ = False"

section \<open>Sample data\<close>

text \<open>
  A decoder defined on the few texts the samples contain, with the values \<open>json.loads\<close>
  gives for them, and a store file holding five occurrences of the key: a span that is
  not JSON, the one-entry array of the specification's scenario, a second one-entry array,
  an empty array, and an array that is never closed.
\<close>

definition entry_foo :: json where
  "entry_foo = JObject [(ustr ''hw_id'', JString (ustr ''1'')),
                        (ustr ''key'', JString (ustr ''foo'')),
                        (ustr ''text'', JString (ustr ''bar''))]"

definition entry_b :: json where
  "entry_b = JObject [(ustr ''key'', JString (ustr ''b''))]"

definition sample_loads :: decoder where
  \<open>sample_loads s =
     (if s = ustr ''[{"hw_id":"1","key":"foo","text":"bar"}]'' then Decoded (JArray [entry_foo])
      else if s = ustr ''[{"key":"b"}]'' then Decoded (JArray [entry_b])
      else if s = ustr ''[]'' \<or> s = ustr ''[    ]'' then Decoded (JArray [])
      else JSONDecodeError)\<close>

definition sample_text :: ustring where
  \<open>sample_text = ustr ''junk hotWordList[1,] hotWordList..[{"hw_id":"1","key":"foo","text":"bar"}]more hotWordList[{"key":"b"}] hotWordList[] hotWordList[[''\<close>

text \<open>
  An encoder for the samples. It writes what \<open>json.dumps(v, ensure_ascii=False)\<close>
  writes for a value that holds no float and no string in need of escaping; it is not
  meant for other values.
\<close>

fun sample_dumps :: encoder
  and dumps_items :: "json list \<Rightarrow> ustring"
  and dumps_members :: "(ustring \<times> json) list \<Rightarrow> ustring" where
  "sample_dumps JNull = ustr ''null''"
| "sample_dumps (JBool b) = (if b then ustr ''true'' else ustr ''false'')"
| "sample_dumps (JInt i) = str_int i"
| "sample_dumps (JFloat r) = []"
| "sample_dumps (JString s) = 34 # s @ [34]"
| "sample_dumps (JArray xs) = 91 # dumps_items xs @ [93]"
| "sample_dumps (JObject d) = 123 # dumps_members d @ [125]"
| "dumps_items [] = []"
| "dumps_items [x] = sample_dumps x"
| "dumps_items (x # y # ys) = sample_dumps x @ ustr '', '' @ dumps_items (y # ys)"
| "dumps_members [] = []"
| "dumps_members [(k, v)] = 34 # k @ [34] @ ustr '': '' @ sample_dumps v"
| "dumps_members ((k, v) # m # ms) =
     34 # k @ [34] @ ustr '': '' @ sample_dumps v @ ustr '', '' @ dumps_members (m # ms)"

text \<open>The two entries of the specification's removal scenario, and a timestamp.\<close>

definition entry_foo_sp :: json where
  "entry_foo_sp = JObject [(ustr ''key'', JString (ustr ''foo '')),
                           (ustr ''text'', JString (ustr ''x''))]"

definition entry_bar :: json where
  "entry_bar = JObject [(ustr ''key'', JString (ustr ''bar'')),
                        (ustr ''text'', JString (ustr ''y''))]"

definition sample_now :: int where
  "sample_now = 1762300800123"

text \<open>
  A timestamp string, the expanded path of the store file, and what \<open>wetype_tool.py\<close>
  exports for the one-entry collection of the specification's scenario.
\<close>

definition sample_ts :: ustring where
  "sample_ts = ustr ''2025-11-05T08:00:00''"

definition sample_source :: ustring where
  "sample_source = ustr ''/Users/me/Library/Application Support/WeType/mmkv/wetype.settings''"

definition sample_tool_export :: json where
  "sample_tool_export =
     JObject [(ustr ''exported_at'', JString sample_ts),
              (ustr ''count'', JInt 1),
              (ustr ''source'', JString sample_source),
              (ustr ''hotwords'',
               JArray [JObject [(ustr ''id'', JString (ustr ''1'')),
                                (ustr ''key'', JString (ustr ''foo'')),
                                (ustr ''text'', JString (ustr ''bar'')),
                                (ustr ''timestamp'', JInt 0),
                                (ustr ''text_preview'', JString (ustr ''bar''))]])]"

text \<open>
  An entry whose body is a closing bracket. \<open>escaped_rb\<close> is a JSON text for the
  one-entry collection in which the bracket is written as the escape \<open>u005d\<close> after
  a backslash (the code point 92); \<open>blob_rb\<close> is what \<open>json.dumps\<close> writes for the
  same collection. \<open>loads_rb\<close> is \<open>json.loads\<close> on these two texts, and rejects the
  others, as \<open>json.loads\<close> rejects a text that ends inside a string literal.
\<close>

definition entry_rb :: json where
  "entry_rb = JObject [(ustr ''hw_id'', JString (ustr ''1'')),
                       (ustr ''key'', JString (ustr ''k'')),
                       (ustr ''text'', JString (ustr '']''))]"

definition escaped_rb :: ustring where
  \<open>escaped_rb = ustr ''[{"hw_id":"1","key":"k","text":"'' @ [92] @ ustr ''u005d"}]''\<close>

definition blob_rb :: ustring where
  \<open>blob_rb = ustr ''[{"hw_id": "1", "key": "k", "text": "]"}]''\<close>

definition loads_rb :: decoder where
  "loads_rb s =
     (if s = escaped_rb \<or> s = blob_rb then Decoded (JArray [entry_rb]) else JSONDecodeError)"

text \<open>
  An array holding one integer of 5000 digits, on which \<open>json.loads\<close> raises
  \<open>ValueError\<close>; a decoder that does so and is \<open>sample_loads\<close> elsewhere; and a store
  file with that array under the key, followed by a one-entry array under the key.
\<close>

definition big_int_span :: ustring where
  "big_int_span = LBRACKET # replicate 5000 49 @ [RBRACKET]"

definition loads_big :: decoder where
  "loads_big s = (if s = big_int_span then Uncaught ValueError else sample_loads s)"

definition big_int_text :: ustring where
  \<open>big_int_text = KEY @ big_int_span @ KEY @ ustr ''[{"key":"b"}]''\<close>

text \<open>
  The output of \<open>strings\<close> for a store file whose value under the key is an empty
  array, and the matches of the two patterns in it: the first pattern matches the array,
  the second does not match.
\<close>

definition empty_array_content :: ustring where
  "empty_array_content = KEY @ [10] @ ustr ''[    ]'' @ [10]"

definition empty_array_matches :: "ustring list list" where
  "empty_array_matches = [[ustr ''[    ]''], []]"

section \<open>Auxiliary facts\<close>

subsection \<open>The scan loop and the selection\<close>

lemma scan_loop_no_raise:
  "(\<forall>p \<in> set ps. raises_at loads text p = None) \<Longrightarrow>
   scan_loop loads text acc ps = Inr (acc @ List.map_filter (accepted_at loads text) ps)"
  by (induction ps arbitrary: acc)
     (auto simp: accepted_at_def raises_at_def split: option.splits decoded.splits)

lemma scan_loop_Inr:
  "scan_loop loads text acc ps = Inr r \<Longrightarrow> \<forall>p \<in> set ps. raises_at loads text p = None"
proof (induction ps arbitrary: acc)
  case Nil
  show ?case by simp
next
  case (Cons a ps)
  from Cons.prems have a: "raises_at loads text a = None"
    by (auto simp: raises_at_def split: option.splits decoded.splits)
  from Cons.prems obtain acc' where "scan_loop loads text acc' ps = Inr r"
    by (auto split: option.splits decoded.splits)
  from Cons.IH[OF this] a show ?case by simp
qed

lemma scan_loop_raise:
  "(\<forall>q \<in> set ps1. raises_at loads text q = None) \<Longrightarrow> raises_at loads text p = Some e \<Longrightarrow>
   scan_loop loads text acc (ps1 @ p # ps2) = Inl e"
  by (induction ps1 arbitrary: acc)
     (auto simp: raises_at_def split: option.splits decoded.splits)

lemma scan_loop_skip:
  "accepted_at loads text p = None \<Longrightarrow> raises_at loads text p = None \<Longrightarrow>
   scan_loop loads text acc (ps1 @ p # ps2) = scan_loop loads text acc (ps1 @ ps2)"
  by (induction ps1 arbitrary: acc)
     (auto simp: accepted_at_def raises_at_def split: option.splits decoded.splits)

lemma KEY_length: "0 < length KEY"
  by (simp add: KEY_def ustr_def)





lemma set_map_filter: "c \<in> set (List.map_filter f ps) \<longleftrightarrow> (\<exists>p \<in> set ps. f p = Some c)"
  by (induction ps) (auto split: option.splits)


lemma all_hotwords_no_raise:
  "(\<forall>p \<in> set (hotword_positions text). raises_at loads text p = None) \<Longrightarrow>
   all_hotwords loads text
     = Inr (List.map_filter (accepted_at loads text) (hotword_positions text))"
  by (simp add: all_hotwords_def scan_loop_no_raise)

lemma all_hotwords_Inr:
  assumes "all_hotwords loads text = Inr xs"
  shows "(\<forall>p \<in> set (hotword_positions text). raises_at loads text p = None)
         \<and> xs = List.map_filter (accepted_at loads text) (hotword_positions text)"
proof -
  from assms have nr: "\<forall>p \<in> set (hotword_positions text). raises_at loads text p = None"
    unfolding all_hotwords_def by (rule scan_loop_Inr)
  with all_hotwords_no_raise[OF nr] assms show ?thesis by simp
qed


subsection \<open>The sample store file\<close>

lemma sample_positions: "hotword_positions sample_text = [5, 21, 79, 104, 118]"
  by (simp add: hotword_positions_def sample_text_def finditer_from.simps KEY_def ustr_def)

lemma sample_spans:
  "candidate_span sample_text 5 = Some (ustr ''[1,]'')"
  \<open>candidate_span sample_text 21 = Some (ustr ''[{"hw_id":"1","key":"foo","text":"bar"}]'')\<close>
  \<open>candidate_span sample_text 79 = Some (ustr ''[{"key":"b"}]'')\<close>
  "candidate_span sample_text 104 = Some (ustr ''[]'')"
  "candidate_span sample_text 118 = None"
  by (simp_all add: candidate_span_def remaining_of_def sample_text_def
        KEY_def WINDOW_def LBRACKET_def RBRACKET_def ustr_def)

lemma sample_decoded:
  "sample_loads (ustr ''[1,]'') = JSONDecodeError"
  \<open>sample_loads (ustr ''[{"hw_id":"1","key":"foo","text":"bar"}]'') = Decoded (JArray [entry_foo])\<close>
  \<open>sample_loads (ustr ''[{"key":"b"}]'') = Decoded (JArray [entry_b])\<close>
  "sample_loads (ustr ''[]'') = Decoded (JArray [])"
  "sample_loads (ustr ''[    ]'') = Decoded (JArray [])"
  by (simp_all add: sample_loads_def ustr_def)

lemma sample_accept:
  "accept_hotwords (JArray [entry_foo]) = Some [entry_foo]"
  "accept_hotwords (JArray [entry_b]) = Some [entry_b]"
  "accept_hotwords (JArray []) = None"
  by (simp_all add: entry_foo_def entry_b_def has_key_def ustr_def)

lemma sample_accepted:
  "accepted_at sample_loads sample_text 5 = None"
  "accepted_at sample_loads sample_text 21 = Some [entry_foo]"
  "accepted_at sample_loads sample_text 79 = Some [entry_b]"
  "accepted_at sample_loads sample_text 104 = None"
  "accepted_at sample_loads sample_text 118 = None"
  by (simp_all add: accepted_at_def sample_spans sample_decoded sample_accept
        del: accept_hotwords.simps)

lemma sample_loads_no_raise: "raises_at sample_loads text p = None"
  by (simp add: raises_at_def sample_loads_def split: option.splits)

lemma sample_all_hotwords:
  "all_hotwords sample_loads sample_text = Inr [[entry_foo], [entry_b]]"
  by (simp add: all_hotwords_no_raise sample_loads_no_raise sample_positions sample_accepted)

subsection \<open>Accepted lists are never empty\<close>

lemma map_filter_app:
  "List.map_filter f (xs @ ys) = List.map_filter f xs @ List.map_filter f ys"
  by (induction xs) (auto split: option.splits)

lemma accept_hotwords_nonempty: "accept_hotwords v = Some hs \<Longrightarrow> hs \<noteq> []"
  by (cases v) (auto split: list.splits json.splits if_splits)

lemma accepted_at_nonempty: "accepted_at loads text p = Some hs \<Longrightarrow> hs \<noteq> []"
  by (auto simp: accepted_at_def split: option.splits decoded.splits
        dest: accept_hotwords_nonempty)

lemma all_hotwords_nonempty:
  "all_hotwords loads text = Inr xs \<Longrightarrow> c \<in> set xs \<Longrightarrow> c \<noteq> []"
  by (auto dest!: all_hotwords_Inr simp: set_map_filter dest: accepted_at_nonempty)

subsection \<open>Removal\<close>

lemma py_strip_empty: "py_strip [] = []"
  by (simp add: py_strip_def)

lemma entry_key_comparison:
  "is_entry hw \<Longrightarrow>
   bind_err (dict_get hw (ustr ''key'') (JString [])) str_strip = Inr (stripped_key hw)"
proof (cases hw)
  case (JObject d)
  assume "is_entry hw"
  with JObject show ?thesis
    by (cases "map_of d (ustr ''key'')")
       (auto simp: bind_err_def py_strip_empty split: json.splits)
qed simp_all

lemma remove_matching_entries:
  "list_all is_entry hs \<Longrightarrow>
   remove_matching k hs = Inr (filter (\<lambda>hw. stripped_key hw \<noteq> k) hs)"
proof (induction hs)
  case Nil
  show ?case by simp
next
  case (Cons hw hs)
  then have e: "is_entry hw" and r: "remove_matching k hs = Inr (filter (\<lambda>hw. stripped_key hw \<noteq> k) hs)"
    by simp_all
  from entry_key_comparison[OF e] obtain v where
    v: "dict_get hw (ustr ''key'') (JString []) = Inr v" and s: "str_strip v = Inr (stripped_key hw)"
    by (cases "dict_get hw (ustr ''key'') (JString [])") (auto simp: bind_err_def)
  show ?case by (simp add: v s r bind_err_def)
qed

lemma length_filter_split:
  "length (filter (\<lambda>x. \<not> P x) xs) + length (filter P xs) = length xs"
  by (induction xs) auto

lemma filter_keeps_all_iff:
  "length (filter (\<lambda>x. \<not> P x) xs) = length xs \<longleftrightarrow> filter P xs = []"
  using length_filter_split[of P xs] by auto

lemma delete_from_entries:
  assumes "list_all is_entry hs"
  shows "delete_from dumps restart hs k =
     Inr (if filter (\<lambda>hw. stripped_key hw = k) hs = []
          then \<lparr>out_report = NotFound k, out_hotwords = hs, out_effects = []\<rparr>
          else \<lparr>out_report = Deleted (length (filter (\<lambda>hw. stripped_key hw = k) hs)),
                out_hotwords = filter (\<lambda>hw. stripped_key hw \<noteq> k) hs,
                out_effects = KvSet (dumps (JArray (filter (\<lambda>hw. stripped_key hw \<noteq> k) hs))) KEY
                              # (if restart then [RestartWeType] else [])\<rparr>)"
proof (cases "filter (\<lambda>hw. stripped_key hw = k) hs = []")
  case True
  then have "filter (\<lambda>hw. stripped_key hw \<noteq> k) hs = hs"
    by (auto simp: filter_empty_conv filter_id_conv)
  with True show ?thesis
    by (simp add: delete_from_def remove_matching_entries[OF assms] bind_err_def)
next
  case False
  then have ne: "length (filter (\<lambda>hw. stripped_key hw \<noteq> k) hs) \<noteq> length hs"
    using filter_keeps_all_iff[of "\<lambda>hw. stripped_key hw = k" hs] by simp
  have "length hs - length (filter (\<lambda>hw. stripped_key hw \<noteq> k) hs)
        = length (filter (\<lambda>hw. stripped_key hw = k) hs)"
    using length_filter_split[of "\<lambda>hw. stripped_key hw = k" hs] by simp
  with False ne show ?thesis
    by (simp add: delete_from_def remove_matching_entries[OF assms] bind_err_def Let_def)
qed

lemma scenario_entries: "list_all is_entry [entry_foo_sp, entry_bar]"
  by (simp add: entry_foo_sp_def entry_bar_def ustr_def)

lemma scenario_keys:
  "stripped_key entry_foo_sp = ustr ''foo''" "stripped_key entry_bar = ustr ''bar''"
  by (simp_all add: entry_foo_sp_def entry_bar_def py_strip_def py_isspace_def ustr_def)

lemma ustr_neq:
  "ustr ''foo'' \<noteq> ustr ''bar''" "ustr ''foo'' \<noteq> ustr ''foo ''" "ustr ''bar'' \<noteq> ustr ''foo ''"
  "ustr ''bar'' \<noteq> ustr ''foo''" "ustr ''foo'' \<noteq> ustr ''baz''" "ustr ''bar'' \<noteq> ustr ''baz''"
  by (simp_all add: ustr_def)

subsection \<open>Insertion and export on the samples\<close>

lemma sample_read: "read_raw_hotwords sample_loads sample_text = Inr [entry_foo]"
  by (simp add: read_raw_hotwords_def sample_all_hotwords max_by_len_def)

lemma sample_stored:
  \<open>get_hotwords sample_loads (ustr ''[{"key":"b"}]'') = Inr (JArray [entry_b])\<close>
proof -
  have \<open>ustr ''[{"key":"b"}]'' \<noteq> []\<close> by (simp add: ustr_def)
  then show ?thesis by (simp add: get_hotwords_def sample_decoded)
qed

lemma sample_now_str: "str_int sample_now = ustr ''1762300800123''"
  by (simp add: str_int_def sample_now_def digits.simps ustr_def)

lemma new_hotword_fields:
  "dict_get (new_hotword now k body) (ustr ''hw_id'') dflt = Inr (JString (str_int now))"
  "dict_get (new_hotword now k body) (ustr ''key'') dflt = Inr (JString k)"
  "dict_get (new_hotword now k body) (ustr ''text'') dflt = Inr (JString body)"
  by (simp_all add: new_hotword_def ustr_def)

lemma parse_hotwords_length: "parse_hotwords items = Inr parsed \<Longrightarrow> length parsed = length items"
proof (induction items arbitrary: parsed)
  case Nil
  then show ?case by simp
next
  case (Cons item items)
  from Cons.prems obtain hw hws where
    "parse_hotwords items = Inr hws" and "parsed = hw # hws"
    by (auto simp: bind_err_def split: sum.splits)
  with Cons.IH show ?case by simp
qed

lemma sample_parse_item:
  "parse_item entry_foo =
     Inr (JObject [(ustr ''id'', JString (ustr ''1'')),
                   (ustr ''key'', JString (ustr ''foo'')),
                   (ustr ''text'', JString (ustr ''bar'')),
                   (ustr ''timestamp'', JInt 0),
                   (ustr ''text_preview'', JString (ustr ''bar''))])"
  by (simp add: parse_item_def entry_foo_def bind_err_def py_strip_def py_isspace_def ustr_def)

lemma sample_tool_run:
  "export_hotwords_tool (Some [entry_foo]) sample_source sample_ts = Inr (Some sample_tool_export)"
  by (simp add: export_hotwords_tool_def sample_parse_item bind_err_def sample_tool_export_def)

lemma sample_raw_export:
  "export_hotwords_raw sample_loads sample_text sample_ts =
     Inr (Some (JObject [(ustr ''exported_at'', JString sample_ts),
                         (ustr ''count'', JInt 1),
                         (ustr ''hotwords'', JArray [entry_foo])]))"
  by (simp add: export_hotwords_raw_def sample_read bind_err_def)

lemma field_names_differ:
  "[ustr ''exported_at'', ustr ''count'', ustr ''source'', ustr ''hotwords'']
     \<noteq> [ustr ''exported_at'', ustr ''count'', ustr ''hotwords'']"
  by (simp add: ustr_def)

subsection \<open>The bracket matcher\<close>

lemma find_char_None_iff: "find_char c s = None \<longleftrightarrow> c \<notin> set s"
  by (induction s) auto

lemma find_char_Some:
  "find_char c s = Some b \<Longrightarrow>
     b < length s \<and> s ! b = c \<and> c \<notin> set (take b s)
     \<and> drop b s = dropWhile (\<lambda>x. x \<noteq> c) s"
proof (induction s arbitrary: b)
  case Nil
  then show ?case by simp
next
  case (Cons x xs)
  show ?case
  proof (cases "x = c")
    case True
    with Cons.prems show ?thesis by simp
  next
    case False
    with Cons.prems obtain b' where b': "find_char c xs = Some b'" and b: "b = Suc b'"
      by auto
    from Cons.IH[OF b'] False b show ?thesis by simp
  qed
qed

lemma find_char_None_dropWhile: "find_char c s = None \<Longrightarrow> dropWhile (\<lambda>x. x \<noteq> c) s = []"
  by (auto simp: find_char_None_iff)

lemma depth_take_Suc_Cons:
  "depth (take (Suc m) (c # cs)) =
     (if c = LBRACKET then 1 else if c = RBRACKET then - 1 else 0) + depth (take m cs)"
  by simp

lemma brackets_differ: "LBRACKET \<noteq> RBRACKET"
  by (simp add: LBRACKET_def RBRACKET_def)

lemma match_bracket_Some:
  "0 < cnt \<Longrightarrow> match_bracket cnt i cs = Some j \<Longrightarrow>
     \<exists>k. j = i + k \<and> k < length cs \<and> cs ! k = RBRACKET
         \<and> cnt + depth (take (Suc k) cs) = 0
         \<and> (\<forall>m \<le> k. 0 < cnt + depth (take m cs))"
proof (induction cs arbitrary: cnt i)
  case Nil
  then show ?case by simp
next
  case (Cons c cs)
  let ?d = "if c = LBRACKET then 1 else if c = RBRACKET then - 1 else (0::int)"
  show ?case
  proof (cases "c = RBRACKET \<and> cnt - 1 = 0")
    case True
    with Cons.prems have "j = i" by (simp add: brackets_differ[symmetric])
    with True Cons.prems(1) show ?thesis
      by (intro exI[of _ 0]) (simp add: brackets_differ[symmetric])
  next
    case False
    with Cons.prems have pos: "0 < cnt + ?d" by (auto simp: brackets_differ)
    from False Cons.prems have rec: "match_bracket (cnt + ?d) (i + 1) cs = Some j"
      by (auto simp: brackets_differ split: if_splits)
    from Cons.IH[OF pos rec] obtain k where
      k: "j = i + 1 + k" "k < length cs" "cs ! k = RBRACKET"
         "cnt + ?d + depth (take (Suc k) cs) = 0"
         "\<forall>m \<le> k. 0 < cnt + ?d + depth (take m cs)" by blast
    have "\<forall>m \<le> Suc k. 0 < cnt + depth (take m (c # cs))"
    proof (intro allI impI)
      fix m assume "m \<le> Suc k"
      show "0 < cnt + depth (take m (c # cs))"
      proof (cases m)
        case 0
        with Cons.prems(1) show ?thesis by simp
      next
        case (Suc m')
        with \<open>m \<le> Suc k\<close> k(5) have "0 < cnt + ?d + depth (take m' cs)" by simp
        with Suc show ?thesis by (simp add: add.assoc)
      qed
    qed
    with k show ?thesis
      by (intro exI[of _ "Suc k"]) (simp add: add.assoc)
  qed
qed

lemma match_bracket_None:
  "0 < cnt \<Longrightarrow> match_bracket cnt i cs = None \<Longrightarrow>
     \<forall>m \<le> length cs. 0 < cnt + depth (take m cs)"
proof (induction cs arbitrary: cnt i)
  case Nil
  then show ?case by simp
next
  case (Cons c cs)
  let ?d = "if c = LBRACKET then 1 else if c = RBRACKET then - 1 else (0::int)"
  from Cons.prems have nb: "\<not> (c = RBRACKET \<and> cnt - 1 = 0)"
    by (auto simp: brackets_differ[symmetric])
  with Cons.prems have pos: "0 < cnt + ?d" by (auto simp: brackets_differ)
  from nb Cons.prems have rec: "match_bracket (cnt + ?d) (i + 1) cs = None"
    by (auto simp: brackets_differ split: if_splits)
  note ih = Cons.IH[OF pos rec]
  show ?case
  proof (intro allI impI)
    fix m assume m: "m \<le> length (c # cs)"
    show "0 < cnt + depth (take m (c # cs))"
    proof (cases m)
      case 0
      with Cons.prems(1) show ?thesis by simp
    next
      case (Suc m')
      with m ih have "0 < cnt + ?d + depth (take m' cs)" by simp
      with Suc show ?thesis by (simp add: add.assoc)
    qed
  qed
qed

lemma from_bracket_cases:
  "(find_char LBRACKET (remaining_of text pos) = None \<and> from_bracket text pos = [])
   \<or> (\<exists>b cs. find_char LBRACKET (remaining_of text pos) = Some b
          \<and> b < length (remaining_of text pos)
          \<and> LBRACKET \<notin> set (take b (remaining_of text pos))
          \<and> drop b (remaining_of text pos) = from_bracket text pos
          \<and> from_bracket text pos = LBRACKET # cs)"
proof (cases "find_char LBRACKET (remaining_of text pos)")
  case None
  then show ?thesis by (simp add: from_bracket_def find_char_None_dropWhile)
next
  case (Some b)
  let ?r = "remaining_of text pos"
  from find_char_Some[OF Some] have
    b: "b < length ?r" "?r ! b = LBRACKET" "LBRACKET \<notin> set (take b ?r)"
       "drop b ?r = from_bracket text pos"
    by (simp_all add: from_bracket_def)
  from b(1,2) have "drop b ?r = LBRACKET # drop (Suc b) ?r"
    by (simp add: Cons_nth_drop_Suc[symmetric])
  with b(4) have "from_bracket text pos = LBRACKET # drop (Suc b) ?r" by simp
  with b Some show ?thesis by blast
qed

lemma candidate_span_eq:
  "candidate_span text pos =
     (case from_bracket text pos of
        [] \<Rightarrow> None
      | c # cs \<Rightarrow> map_option (\<lambda>i. take (i + 1) (from_bracket text pos)) (match_bracket 1 1 cs))"
proof -
  from from_bracket_cases[of "text" pos] show ?thesis
  proof (elim disjE conjE exE)
    assume "find_char LBRACKET (remaining_of text pos) = None" "from_bracket text pos = []"
    then show ?thesis by (simp add: candidate_span_def)
  next
    fix b cs
    assume "find_char LBRACKET (remaining_of text pos) = Some b"
      "drop b (remaining_of text pos) = from_bracket text pos"
      "from_bracket text pos = LBRACKET # cs"
    then show ?thesis
      by (cases "match_bracket 1 1 cs") (simp_all add: candidate_span_def Let_def)
  qed
qed

lemma candidate_span_Some:
  assumes "candidate_span text pos = Some s"
  shows "\<exists>n. 0 < n \<and> n \<le> length (from_bracket text pos)
           \<and> s = take n (from_bracket text pos)
           \<and> hd s = LBRACKET \<and> last s = RBRACKET \<and> depth s = 0
           \<and> (\<forall>m. 0 < m \<and> m < n \<longrightarrow> 0 < depth (take m (from_bracket text pos)))"
proof -
  from from_bracket_cases[of "text" pos] assms obtain cs where
    fb: "from_bracket text pos = LBRACKET # cs"
    by (auto simp: candidate_span_def)
  with assms obtain i where i: "match_bracket 1 1 cs = Some i"
    and s: "s = take (i + 1) (LBRACKET # cs)"
    by (auto simp: candidate_span_eq)
  from match_bracket_Some[OF _ i] obtain k where
    k: "i = 1 + k" "k < length cs" "cs ! k = RBRACKET"
       "1 + depth (take (Suc k) cs) = 0" "\<forall>m \<le> k. 0 < 1 + depth (take m cs)"
    by auto
  from s k(1) have s': "s = LBRACKET # take (Suc k) cs" by simp
  have "last s = RBRACKET"
    using k(2,3) unfolding s' by (simp add: take_Suc_conv_app_nth)
  moreover have "depth s = 0" using k(4) unfolding s' by simp
  moreover have "\<forall>m. 0 < m \<and> m < k + 2 \<longrightarrow> 0 < depth (take m (from_bracket text pos))"
  proof (intro allI impI)
    fix m assume m: "0 < m \<and> m < k + 2"
    then obtain m' where m': "m = Suc m'" "m' \<le> k" by (cases m) auto
    with k(5) have "0 < 1 + depth (take m' cs)" by simp
    with m' show "0 < depth (take m (from_bracket text pos))" by (simp add: fb)
  qed
  moreover have "s = take (k + 2) (from_bracket text pos)" unfolding s' fb by simp
  moreover have "k + 2 \<le> length (from_bracket text pos)" using k(2) by (simp add: fb)
  moreover have "hd s = LBRACKET" by (simp add: s')
  ultimately show ?thesis by (intro exI[of _ "k + 2"]) simp
qed

lemma candidate_span_None:
  assumes "candidate_span text pos = None"
  shows "\<forall>n. 0 < n \<and> n \<le> length (from_bracket text pos)
           \<longrightarrow> 0 < depth (take n (from_bracket text pos))"
proof (cases "from_bracket text pos")
  case Nil
  then show ?thesis by auto
next
  case (Cons c cs)
  with from_bracket_cases[of "text" pos] have c: "c = LBRACKET" by auto
  from assms Cons have "match_bracket 1 1 cs = None" by (simp add: candidate_span_eq)
  from match_bracket_None[OF _ this] have all: "\<forall>m \<le> length cs. 0 < 1 + depth (take m cs)"
    by simp
  show ?thesis
  proof (intro allI impI)
    fix n assume n: "0 < n \<and> n \<le> length (from_bracket text pos)"
    then obtain m where m: "n = Suc m" "m \<le> length cs" using Cons by (cases n) auto
    with all have "0 < 1 + depth (take m cs)" by simp
    with m show "0 < depth (take n (from_bracket text pos))" by (simp add: Cons c)
  qed
qed

subsection \<open>The search window\<close>

lemma remaining_of_window:
  "remaining_of (take (pos + length KEY + WINDOW) text) pos = remaining_of text pos"
  by (simp add: remaining_of_def drop_take)

lemma candidate_span_window:
  "candidate_span (take (pos + length KEY + WINDOW) text) pos = candidate_span text pos"
  by (simp add: candidate_span_def remaining_of_window)

lemma from_bracket_in_text:
  "\<exists>b. LBRACKET \<notin> set (take b (drop (pos + length KEY) text))
       \<and> b + length (from_bracket text pos) \<le> WINDOW
       \<and> (\<forall>n \<le> length (from_bracket text pos).
            take n (from_bracket text pos) = take n (drop (pos + length KEY + b) text))"
proof -
  let ?p = "pos + length KEY"
  let ?r = "remaining_of text pos"
  have len: "length ?r \<le> WINDOW" by (simp add: remaining_of_def)
  from from_bracket_cases[of "text" pos] show ?thesis
  proof (elim disjE conjE exE)
    assume "from_bracket text pos = []"
    then show ?thesis by (intro exI[of _ 0]) simp
  next
    fix b cs
    assume b: "b < length ?r" "LBRACKET \<notin> set (take b ?r)" "drop b ?r = from_bracket text pos"
    from b(1) len have bw: "b \<le> WINDOW" by simp
    then have "take b ?r = take b (drop ?p text)" by (simp add: remaining_of_def min_def)
    with b(2) have 1: "LBRACKET \<notin> set (take b (drop ?p text))" by simp
    have fb: "from_bracket text pos = take (WINDOW - b) (drop (?p + b) text)"
      unfolding b(3)[symmetric] by (simp add: remaining_of_def drop_take add.commute)
    have 2: "b + length (from_bracket text pos) \<le> WINDOW"
      using b(1) len unfolding b(3)[symmetric] by simp
    have 3: "\<forall>n \<le> length (from_bracket text pos).
            take n (from_bracket text pos) = take n (drop (?p + b) text)"
    proof (intro allI impI)
      fix n assume "n \<le> length (from_bracket text pos)"
      with 2 have "n \<le> WINDOW - b" by simp
      then show "take n (from_bracket text pos) = take n (drop (?p + b) text)"
        by (subst fb) (simp add: min_def)
    qed
    from 1 2 3 show ?thesis by blast
  qed
qed

lemma find_char_replicate:
  "c \<noteq> x \<Longrightarrow> find_char c (replicate n x @ ys) =
     (case find_char c ys of None \<Rightarrow> None | Some i \<Rightarrow> Some (n + i))"
  by (induction n) (auto split: option.splits)

lemma remaining_of_after_key: "remaining_of (KEY @ s) 0 = take WINDOW s"
  by (simp add: remaining_of_def)

lemma window_ge_2: "2 \<le> WINDOW"
  by (simp add: WINDOW_def)

lemma window_boundary:
  "candidate_span (KEY @ replicate (WINDOW - 2) 32 @ ustr ''[]'') 0 = Some (ustr ''[]'')"
  "candidate_span (KEY @ replicate (WINDOW - 1) 32 @ ustr ''[]'') 0 = None"
  "candidate_span (KEY @ replicate WINDOW 32) 0 = None"
proof -
  have ne: "LBRACKET \<noteq> 32" by (simp add: LBRACKET_def)
  have br: "ustr ''[]'' = [LBRACKET, RBRACKET]" by (simp add: ustr_def LBRACKET_def RBRACKET_def)
  have r2: "remaining_of (KEY @ replicate (WINDOW - 2) 32 @ ustr ''[]'') 0
              = replicate (WINDOW - 2) 32 @ [LBRACKET, RBRACKET]"
    using window_ge_2 by (simp add: remaining_of_after_key br)
  have r1: "remaining_of (KEY @ replicate (WINDOW - 1) 32 @ ustr ''[]'') 0
              = replicate (WINDOW - 1) 32 @ [LBRACKET]"
    using window_ge_2 by (simp add: remaining_of_after_key br)
  have r0: "remaining_of (KEY @ replicate WINDOW 32) 0 = replicate WINDOW 32"
    by (simp add: remaining_of_after_key)
  show "candidate_span (KEY @ replicate (WINDOW - 2) 32 @ ustr ''[]'') 0 = Some (ustr ''[]'')"
    unfolding candidate_span_def r2
    by (simp add: find_char_replicate[OF ne] br brackets_differ[symmetric])
  show "candidate_span (KEY @ replicate (WINDOW - 1) 32 @ ustr ''[]'') 0 = None"
    unfolding candidate_span_def r1
    by (simp add: find_char_replicate[OF ne])
  show "candidate_span (KEY @ replicate WINDOW 32) 0 = None"
    unfolding candidate_span_def r0
    using find_char_replicate[OF ne, of WINDOW "[]"] by simp
qed

lemma take_window_text:
  "take (0 + length KEY + WINDOW) (KEY @ replicate WINDOW 32 @ ustr ''[]'') = KEY @ replicate WINDOW 32"
  by simp

subsection \<open>A bracket inside a string\<close>

lemma positions_rb:
  "hotword_positions (KEY @ escaped_rb) = [0]" "hotword_positions (KEY @ blob_rb) = [0]"
  by (simp_all add: hotword_positions_def finditer_from.simps KEY_def escaped_rb_def blob_rb_def ustr_def)

lemma spans_rb:
  "candidate_span (KEY @ escaped_rb) 0 = Some escaped_rb"
  \<open>candidate_span (KEY @ blob_rb) 0 = Some (ustr ''[{"hw_id": "1", "key": "k", "text": "]'')\<close>
  by (simp_all add: candidate_span_def remaining_of_def KEY_def WINDOW_def LBRACKET_def
        RBRACKET_def escaped_rb_def blob_rb_def ustr_def)

lemma decoded_rb:
  "loads_rb escaped_rb = Decoded (JArray [entry_rb])"
  "loads_rb blob_rb = Decoded (JArray [entry_rb])"
  \<open>loads_rb (ustr ''[{"hw_id": "1", "key": "k", "text": "]'') = JSONDecodeError\<close>
  by (simp_all add: loads_rb_def) (simp_all add: escaped_rb_def blob_rb_def ustr_def)

lemma loads_rb_no_raise: "raises_at loads_rb text p = None"
  by (simp add: raises_at_def loads_rb_def split: option.splits)

lemma accept_rb: "accept_hotwords (JArray [entry_rb]) = Some [entry_rb]"
  by (simp add: entry_rb_def has_key_def ustr_def)

lemma dumps_rb: "sample_dumps (JArray [entry_rb]) = blob_rb"
  by (simp add: entry_rb_def blob_rb_def ustr_def)

subsection \<open>Occurrences of the key\<close>




subsection \<open>An integer too long to convert\<close>

lemma KEY_head: "take (length KEY) (x # r) = KEY \<Longrightarrow> x = 104"
  by (simp add: KEY_def ustr_def)

lemma finditer_from_Nil: "finditer_from i [] = []"
  by (subst finditer_from.simps) simp

lemma finditer_from_key: "finditer_from i (KEY @ s) = i # finditer_from (i + length KEY) s"
proof -
  have "KEY @ s \<noteq> []" using KEY_length by auto
  then show ?thesis by (subst finditer_from.simps) simp
qed

lemma finditer_from_skip:
  "104 \<notin> set xs \<Longrightarrow> finditer_from i (xs @ s) = finditer_from (i + length xs) s"
proof (induction xs arbitrary: i)
  case Nil
  show ?case by simp
next
  case (Cons x xs)
  then have x: "x \<noteq> 104" and xs: "104 \<notin> set xs" by auto
  from x KEY_head[of x "xs @ s"] have "take (length KEY) ((x # xs) @ s) \<noteq> KEY" by auto
  then have "finditer_from i ((x # xs) @ s) = finditer_from (i + 1) (xs @ s)"
    by (subst finditer_from.simps) simp
  with Cons.IH[OF xs, of "i + 1"] show ?case by simp
qed

lemma match_bracket_replicate:
  "x \<noteq> LBRACKET \<Longrightarrow> x \<noteq> RBRACKET \<Longrightarrow>
   match_bracket cnt i (replicate n x @ ys) = match_bracket cnt (i + n) ys"
  by (induction n arbitrary: i) auto

lemma big_int_span_length: "length big_int_span = 5002"
  by (simp add: big_int_span_def)

lemma big_int_span_no_key: "104 \<notin> set big_int_span"
  by (simp add: big_int_span_def LBRACKET_def RBRACKET_def)

lemma blob_b_no_key: \<open>104 \<notin> set (ustr ''[{"key":"b"}]'')\<close>
  by (simp add: ustr_def)

lemma big_int_positions:
  "hotword_positions big_int_text = [0, 5013]"
  "hotword_positions (KEY @ big_int_span) = [0]"
proof -
  have k: "length KEY = 11" by (simp add: KEY_def ustr_def)
  have \<open>finditer_from 5013 (KEY @ ustr ''[{"key":"b"}]'') = [5013]\<close>
    using finditer_from_skip[OF blob_b_no_key, of _ "[]"]
    by (simp add: finditer_from_key finditer_from_Nil)
  then show "hotword_positions big_int_text = [0, 5013]"
    unfolding hotword_positions_def big_int_text_def
    by (simp add: finditer_from_key finditer_from_skip[OF big_int_span_no_key]
          big_int_span_length k)
  show "hotword_positions (KEY @ big_int_span) = [0]"
    unfolding hotword_positions_def
    using finditer_from_skip[OF big_int_span_no_key, of _ "[]"]
    by (simp add: finditer_from_key finditer_from_Nil)
qed

lemma big_int_candidate:
  assumes "length rest + 5002 \<le> WINDOW"
  shows "candidate_span (KEY @ big_int_span @ rest) 0 = Some big_int_span"
proof -
  have r: "remaining_of (KEY @ big_int_span @ rest) 0 = big_int_span @ rest"
    using assms by (simp add: remaining_of_def big_int_span_length)
  have d: "(49::nat) \<noteq> LBRACKET" "(49::nat) \<noteq> RBRACKET"
    by (simp_all add: LBRACKET_def RBRACKET_def)
  have m: "match_bracket 0 0 (big_int_span @ rest) = Some 5001"
    by (simp add: big_int_span_def match_bracket_replicate[OF d] brackets_differ[symmetric])
  have f: "find_char LBRACKET (big_int_span @ rest) = Some 0"
    by (simp add: big_int_span_def)
  show ?thesis
    unfolding candidate_span_def r by (simp add: f m big_int_span_length)
qed

lemma big_int_spans:
  "candidate_span big_int_text 0 = Some big_int_span"
  "candidate_span (KEY @ big_int_span) 0 = Some big_int_span"
proof -
  have \<open>length (KEY @ ustr ''[{"key":"b"}]'') + 5002 \<le> WINDOW\<close>
    by (simp add: KEY_def ustr_def WINDOW_def)
  from big_int_candidate[OF this] show "candidate_span big_int_text 0 = Some big_int_span"
    by (simp add: big_int_text_def)
  have "length ([]::ustring) + 5002 \<le> WINDOW" by (simp add: WINDOW_def)
  from big_int_candidate[OF this] show "candidate_span (KEY @ big_int_span) 0 = Some big_int_span"
    by simp
qed

lemma big_int_second_span:
  \<open>candidate_span big_int_text 5013 = Some (ustr ''[{"key":"b"}]'')\<close>
proof -
  have k: "length KEY = 11" by (simp add: KEY_def ustr_def)
  have \<open>drop (5013 + length KEY) big_int_text = ustr ''[{"key":"b"}]''\<close>
    by (simp add: big_int_text_def big_int_span_length k)
  then have \<open>remaining_of big_int_text 5013 = ustr ''[{"key":"b"}]''\<close>
    by (simp add: remaining_of_def) (simp add: ustr_def WINDOW_def)
  then show ?thesis
    unfolding candidate_span_def
    by (simp add: LBRACKET_def RBRACKET_def ustr_def)
qed

lemma big_int_second_decoded:
  \<open>loads_big (ustr ''[{"key":"b"}]'') = Decoded (JArray [entry_b])\<close>
proof -
  have \<open>length (ustr ''[{"key":"b"}]'') \<noteq> length big_int_span\<close>
    by (simp add: big_int_span_length ustr_def)
  then have \<open>ustr ''[{"key":"b"}]'' \<noteq> big_int_span\<close> by auto
  then show ?thesis by (simp add: loads_big_def sample_decoded)
qed

lemma big_int_raises:
  "raises_at loads_big big_int_text 0 = Some ValueError"
  "raises_at loads_big (KEY @ big_int_span) 0 = Some ValueError"
  by (simp_all add: raises_at_def big_int_spans loads_big_def)

subsection \<open>The fallback of \<open>read_hotwords_raw\<close> on an empty array\<close>

lemma empty_array_lines:
  "split_lines empty_array_content = [KEY, ustr ''[    ]'', []]"
  by (simp add: empty_array_content_def KEY_def ustr_def)

lemma empty_array_joined: "join_lines (ustr ''[    ]'') [[]] = ustr ''[    ]''"
  by (simp add: endswith_rbracket_def py_rstrip_def py_isspace_def RBRACKET_def ustr_def)

lemma empty_array_starts: "startswith_lbracket (ustr ''[    ]'')"
  by (simp add: startswith_lbracket_def LBRACKET_def ustr_def)

lemma empty_array_patterns: "try_patterns sample_loads empty_array_matches = Inr None"
  by (simp add: empty_array_matches_def sample_decoded)

lemma empty_array_fallback:
  "fallback_loop sample_loads (split_lines empty_array_content) = Some []"
  by (simp add: empty_array_lines empty_array_starts empty_array_joined sample_decoded)

section \<open>The claims\<close>



text \<open>
  C2 (as amended). A decoded value is accepted exactly when it is a list whose first
  element is a dict holding at least one of the fields \<open>hw_id\<close>, \<open>key\<close> and
  \<open>text\<close>; the elements after the first are not looked at.
\<close>

theorem accept_hotwords_first_element:
  "accept_hotwords v = Some hs \<longleftrightarrow>
     v = JArray hs
     \<and> (\<exists>d rest. hs = JObject d # rest
           \<and> (has_key d (ustr ''hw_id'') \<or> has_key d (ustr ''key'') \<or> has_key d (ustr ''text'')))"
proof (cases v)
  case (JArray xs)
  show ?thesis
  proof (cases xs)
    case Nil
    with JArray show ?thesis by auto
  next
    case (Cons h rest)
    with JArray show ?thesis by (cases h) auto
  qed
qed simp_all

theorem accept_hotwords_first_element_witness:
  "accept_hotwords (JArray [entry_foo]) = Some [entry_foo]
   \<and> accept_hotwords (JArray [JInt 5, entry_b]) \<noteq> Some [JInt 5, entry_b]"
proof -
  have "has_key [(ustr ''hw_id'', JString (ustr ''1'')), (ustr ''key'', JString (ustr ''foo'')),
                 (ustr ''text'', JString (ustr ''bar''))] (ustr ''hw_id'')"
    by (simp add: has_key_def ustr_def)
  then have "accept_hotwords (JArray [entry_foo]) = Some [entry_foo]"
    unfolding accept_hotwords_first_element entry_foo_def by blast
  moreover have "accept_hotwords (JArray [JInt 5, entry_b]) \<noteq> Some [JInt 5, entry_b]"
    unfolding accept_hotwords_first_element by simp
  ultimately show ?thesis by simp
qed

text \<open>
  C2 as stated fails: a list whose second element is the number 5, not a dict, is
  accepted, because its first element is a dict with the field \<open>key\<close>.
\<close>

theorem accept_hotwords_counterexample:
  "accept_hotwords (JArray [entry_b, JInt 5]) = Some [entry_b, JInt 5]
   \<and> \<not> list_all is_dict [entry_b, JInt 5]"
  by (simp add: entry_b_def has_key_def ustr_def)

text \<open>
  C3. For the occurrence of the key at \<open>pos\<close>, the scanner reads nothing beyond the
  100000 characters that follow the key: the span it cuts out is the same when the text is
  cut off there. A span that is cut out begins at the first opening bracket of that window
  and lies wholly inside the window; it ends with the closing bracket at which the nesting
  depth first returns to zero. When the depth never returns to zero inside the window, and
  only then, no span is cut out: nothing is decoded for the occurrence, and the loop gives
  the result it gives without it.
\<close>

theorem scanner_window_and_bracket_matching:
  "candidate_span text pos = candidate_span (take (pos + length KEY + WINDOW) text) pos
   \<and> (candidate_span text pos = Some s \<longrightarrow>
        (\<exists>b n. LBRACKET \<notin> set (take b (drop (pos + length KEY) text))
             \<and> 0 < n \<and> b + n \<le> WINDOW \<and> length s = n
             \<and> s = take n (drop (pos + length KEY + b) text)
             \<and> s = take n (from_bracket text pos)
             \<and> hd s = LBRACKET \<and> last s = RBRACKET \<and> depth s = 0
             \<and> (\<forall>m. 0 < m \<and> m < n \<longrightarrow> 0 < depth (take m s))))
   \<and> (candidate_span text pos = None \<longleftrightarrow>
        (\<forall>n. 0 < n \<and> n \<le> length (from_bracket text pos)
               \<longrightarrow> 0 < depth (take n (from_bracket text pos))))
   \<and> (candidate_span text pos = None \<longrightarrow>
        accepted_at loads text pos = None
        \<and> scan_loop loads text acc (ps1 @ pos # ps2) = scan_loop loads text acc (ps1 @ ps2))"
proof (intro conjI impI)
  show "candidate_span text pos = candidate_span (take (pos + length KEY + WINDOW) text) pos"
    by (rule candidate_span_window[symmetric])
next
  assume some: "candidate_span text pos = Some s"
  let ?fb = "from_bracket text pos"
  from candidate_span_Some[OF some] obtain n where
    n: "0 < n" "n \<le> length ?fb" "s = take n ?fb"
       "hd s = LBRACKET" "last s = RBRACKET" "depth s = 0"
       "\<forall>m. 0 < m \<and> m < n \<longrightarrow> 0 < depth (take m ?fb)"
    by blast
  from from_bracket_in_text[of pos "text"] obtain b where
    b: "LBRACKET \<notin> set (take b (drop (pos + length KEY) text))"
       "b + length ?fb \<le> WINDOW"
       "\<forall>n \<le> length ?fb. take n ?fb = take n (drop (pos + length KEY + b) text)"
    by blast
  from n(2) b(2) have 1: "b + n \<le> WINDOW" by simp
  from n(2,3) have 2: "length s = n" by simp
  from n(2,3) b(3) have 3: "s = take n (drop (pos + length KEY + b) text)" by simp
  have 4: "\<forall>m. 0 < m \<and> m < n \<longrightarrow> 0 < depth (take m s)"
  proof (intro allI impI)
    fix m assume m: "0 < m \<and> m < n"
    then have "take m s = take m ?fb" unfolding n(3) by (simp add: min_def)
    with n(7) m show "0 < depth (take m s)" by simp
  qed
  from b(1) n(1) 1 2 3 n(3,4,5,6) 4
  show "\<exists>b n. LBRACKET \<notin> set (take b (drop (pos + length KEY) text))
             \<and> 0 < n \<and> b + n \<le> WINDOW \<and> length s = n
             \<and> s = take n (drop (pos + length KEY + b) text)
             \<and> s = take n (from_bracket text pos)
             \<and> hd s = LBRACKET \<and> last s = RBRACKET \<and> depth s = 0
             \<and> (\<forall>m. 0 < m \<and> m < n \<longrightarrow> 0 < depth (take m s))"
    by blast
next
  show "candidate_span text pos = None \<longleftrightarrow>
        (\<forall>n. 0 < n \<and> n \<le> length (from_bracket text pos)
               \<longrightarrow> 0 < depth (take n (from_bracket text pos)))"
  proof
    assume "candidate_span text pos = None"
    then show "\<forall>n. 0 < n \<and> n \<le> length (from_bracket text pos)
               \<longrightarrow> 0 < depth (take n (from_bracket text pos))"
      by (rule candidate_span_None)
  next
    assume all: "\<forall>n. 0 < n \<and> n \<le> length (from_bracket text pos)
               \<longrightarrow> 0 < depth (take n (from_bracket text pos))"
    show "candidate_span text pos = None"
    proof (cases "candidate_span text pos")
      case None
      then show ?thesis .
    next
      case (Some s')
      from candidate_span_Some[OF Some] obtain n where
        "0 < n" "n \<le> length (from_bracket text pos)" "s' = take n (from_bracket text pos)"
        "depth s' = 0" by blast
      with all show ?thesis by force
    qed
  qed
next
  assume "candidate_span text pos = None"
  then show "accepted_at loads text pos = None" by (simp add: accepted_at_def)
next
  assume "candidate_span text pos = None"
  then have "accepted_at loads text pos = None" "raises_at loads text pos = None"
    by (simp_all add: accepted_at_def raises_at_def)
  then show "scan_loop loads text acc (ps1 @ pos # ps2) = scan_loop loads text acc (ps1 @ ps2)"
    by (rule scan_loop_skip)
qed

theorem scanner_window_and_bracket_matching_witness:
  \<open>candidate_span sample_text 21 = Some (ustr ''[{"hw_id":"1","key":"foo","text":"bar"}]'')
   \<and> depth (ustr ''[{"hw_id":"1","key":"foo","text":"bar"}]'') = 0
   \<and> candidate_span sample_text 118 = None
   \<and> scan_loop sample_loads sample_text [] [21, 118] = scan_loop sample_loads sample_text [] [21]
   \<and> candidate_span (KEY @ replicate (WINDOW - 2) 32 @ ustr ''[]'') 0 = Some (ustr ''[]'')
   \<and> candidate_span (KEY @ replicate (WINDOW - 1) 32 @ ustr ''[]'') 0 = None
   \<and> candidate_span (KEY @ replicate WINDOW 32 @ ustr ''[]'') 0 = None\<close>
proof -
  note inst = scanner_window_and_bracket_matching[of _ _ _ sample_loads "[]"]
  from inst[of sample_text 21 _ _ _] sample_spans(2) have
    a: \<open>depth (ustr ''[{"hw_id":"1","key":"foo","text":"bar"}]'') = 0\<close>
    by blast
  from inst[of sample_text 118 _ "[21]" "[]"] sample_spans(5) have
    b: "scan_loop sample_loads sample_text [] [21, 118] = scan_loop sample_loads sample_text [] [21]"
    by simp
  from inst[of "KEY @ replicate WINDOW 32 @ ustr ''[]''" 0 _ _ _] have
    "candidate_span (KEY @ replicate WINDOW 32 @ ustr ''[]'') 0
       = candidate_span (take (0 + length KEY + WINDOW) (KEY @ replicate WINDOW 32 @ ustr ''[]'')) 0"
    by blast
  then have
    c: "candidate_span (KEY @ replicate WINDOW 32 @ ustr ''[]'') 0 = None"
    unfolding take_window_text by (simp add: window_boundary)
  from a b c sample_spans(2,5) window_boundary(1,2) show ?thesis by simp
qed

text \<open>
  C4. On a collection of entries (dicts whose \<open>key\<close>, when present, is a string),
  \<open>delete_hotword\<close> removes exactly the entries whose stripped trigger key equals the
  query as it was given, keeps the others in order, writes the kept list and reports how
  many were removed. When none matches it returns normally with the report that the
  trigger key was not found. \<open>wetype_raw.py\<close> and \<open>wetype_rw.py\<close> share this body.
\<close>

theorem delete_removes_exactly_matching:
  assumes "list_all is_entry hs"
  shows "delete_from dumps restart hs k =
           Inr (if filter (\<lambda>hw. stripped_key hw = k) hs = []
                then \<lparr>out_report = NotFound k, out_hotwords = hs, out_effects = []\<rparr>
                else \<lparr>out_report = Deleted (length (filter (\<lambda>hw. stripped_key hw = k) hs)),
                      out_hotwords = filter (\<lambda>hw. stripped_key hw \<noteq> k) hs,
                      out_effects =
                        KvSet (dumps (JArray (filter (\<lambda>hw. stripped_key hw \<noteq> k) hs))) KEY
                        # (if restart then [RestartWeType] else [])\<rparr>)
         \<and> (read_raw_hotwords loads text = Inr hs \<longrightarrow>
              delete_hotword_raw loads dumps text k = delete_from dumps True hs k)
         \<and> (get_hotwords loads stored = Inr (JArray hs) \<longrightarrow>
              delete_hotword_rw loads dumps stored k = delete_from dumps False hs k)"
  using delete_from_entries[OF assms, of dumps restart k]
  by (simp add: delete_hotword_raw_def delete_hotword_rw_def bind_err_def)

theorem delete_removes_exactly_matching_witness:
  \<open>list_all is_entry [entry_foo_sp, entry_bar]
   \<and> delete_from sample_dumps True [entry_foo_sp, entry_bar] (ustr ''foo'') =
         Inr \<lparr>out_report = Deleted 1, out_hotwords = [entry_bar],
              out_effects = [KvSet (ustr ''[{"key": "bar", "text": "y"}]'') KEY, RestartWeType]\<rparr>
   \<and> delete_from sample_dumps True [entry_foo_sp, entry_bar] (ustr ''foo '') =
         Inr \<lparr>out_report = NotFound (ustr ''foo ''), out_hotwords = [entry_foo_sp, entry_bar],
              out_effects = []\<rparr>\<close>
proof -
  have d: \<open>sample_dumps (JArray [entry_bar]) = ustr ''[{"key": "bar", "text": "y"}]''\<close>
    by (simp add: entry_bar_def ustr_def)
  note inst = delete_removes_exactly_matching[OF scenario_entries, of sample_dumps True]
  from inst[of "ustr ''foo''"] have
    a: "delete_from sample_dumps True [entry_foo_sp, entry_bar] (ustr ''foo'') =
         Inr \<lparr>out_report = Deleted 1, out_hotwords = [entry_bar],
              out_effects = [KvSet (sample_dumps (JArray [entry_bar])) KEY, RestartWeType]\<rparr>"
    by (simp add: scenario_keys ustr_neq)
  from inst[of "ustr ''foo ''"] have
    b: "delete_from sample_dumps True [entry_foo_sp, entry_bar] (ustr ''foo '') =
         Inr \<lparr>out_report = NotFound (ustr ''foo ''), out_hotwords = [entry_foo_sp, entry_bar],
              out_effects = []\<rparr>"
    by (simp add: scenario_keys ustr_neq)
  from a b d scenario_entries show ?thesis by simp
qed

text \<open>
  C5. When no entry of the collection has a stripped trigger key equal to the query, the
  filtered list is the collection itself, the number removed is zero, the outcome is the
  not-found report, and nothing is written: no effect is recorded.
\<close>

theorem delete_not_found_changes_nothing:
  assumes "list_all is_entry hs" and "\<forall>hw \<in> set hs. stripped_key hw \<noteq> k"
  shows "remove_matching k hs = Inr hs
         \<and> delete_from dumps restart hs k =
             Inr \<lparr>out_report = NotFound k, out_hotwords = hs, out_effects = []\<rparr>
         \<and> (read_raw_hotwords loads text = Inr hs \<longrightarrow>
              delete_hotword_raw loads dumps text k =
                Inr \<lparr>out_report = NotFound k, out_hotwords = hs, out_effects = []\<rparr>)
         \<and> (get_hotwords loads stored = Inr (JArray hs) \<longrightarrow>
              delete_hotword_rw loads dumps stored k =
                Inr \<lparr>out_report = NotFound k, out_hotwords = hs, out_effects = []\<rparr>)"
proof -
  from assms(2) have none: "filter (\<lambda>hw. stripped_key hw = k) hs = []"
    by (simp add: filter_empty_conv)
  from assms(2) have same: "filter (\<lambda>hw. stripped_key hw \<noteq> k) hs = hs"
    by (simp add: filter_id_conv)
  have r: "remove_matching k hs = Inr hs"
    using remove_matching_entries[OF assms(1), of k] same by simp
  have d: "delete_from dumps restart hs k =
             Inr \<lparr>out_report = NotFound k, out_hotwords = hs, out_effects = []\<rparr>" for restart
    using delete_from_entries[OF assms(1), of dumps restart k] none by simp
  from r d show ?thesis
    by (simp add: delete_hotword_raw_def delete_hotword_rw_def bind_err_def)
qed

theorem delete_not_found_changes_nothing_witness:
  "list_all is_entry [entry_foo_sp, entry_bar]
   \<and> stripped_key entry_foo_sp \<noteq> ustr ''baz'' \<and> stripped_key entry_bar \<noteq> ustr ''baz''
   \<and> remove_matching (ustr ''baz'') [entry_foo_sp, entry_bar] = Inr [entry_foo_sp, entry_bar]
   \<and> delete_from sample_dumps True [entry_foo_sp, entry_bar] (ustr ''baz'') =
        Inr \<lparr>out_report = NotFound (ustr ''baz''), out_hotwords = [entry_foo_sp, entry_bar],
             out_effects = []\<rparr>"
proof -
  have h: "\<forall>hw \<in> set [entry_foo_sp, entry_bar]. stripped_key hw \<noteq> ustr ''baz''"
    by (simp add: scenario_keys ustr_neq)
  from delete_not_found_changes_nothing[OF scenario_entries h, of sample_dumps True]
    scenario_entries h
  show ?thesis by simp
qed

text \<open>
  C6. \<open>add_hotword\<close> has no failing step on a collection. Its new entry carries as
  \<open>hw_id\<close> the decimal string of the time in milliseconds, and the given trigger key and
  body; the entry goes in front of the collection, whose entries follow in their order,
  so the length grows by exactly one; the new list is what is written. Nothing depends on
  the trigger keys already there. \<open>wetype_raw.py\<close> does this with the collection that the
  scan returns, \<open>wetype_rw.py\<close> with the list that the stored value decodes to.
\<close>

theorem add_prepends_new_entry:
  "out_hotwords (add_to dumps restart hs now k body) = new_hotword now k body # hs
   \<and> length (out_hotwords (add_to dumps restart hs now k body)) = length hs + 1
   \<and> out_hotwords (add_to dumps restart hs now k body) ! 0 = new_hotword now k body
   \<and> (\<forall>i < length hs. out_hotwords (add_to dumps restart hs now k body) ! (i + 1) = hs ! i)
   \<and> out_effects (add_to dumps restart hs now k body)
     = KvSet (dumps (JArray (new_hotword now k body # hs))) KEY
       # (if restart then [RestartWeType] else [])
   \<and> (read_raw_hotwords loads text = Inr hs \<longrightarrow>
        add_hotword_raw loads dumps text now k body =
          Inr \<lparr>out_report = Added k, out_hotwords = new_hotword now k body # hs,
               out_effects = [KvSet (dumps (JArray (new_hotword now k body # hs))) KEY,
                              RestartWeType]\<rparr>)
   \<and> (get_hotwords loads stored = Inr (JArray hs) \<longrightarrow>
        add_hotword_rw loads dumps stored now k body =
          Inr \<lparr>out_report = Added k, out_hotwords = new_hotword now k body # hs,
               out_effects = [KvSet (dumps (JArray (new_hotword now k body # hs))) KEY]\<rparr>)
   \<and> dict_get (new_hotword now k body) (ustr ''hw_id'') dflt = Inr (JString (str_int now))
   \<and> dict_get (new_hotword now k body) (ustr ''key'') dflt = Inr (JString k)
   \<and> dict_get (new_hotword now k body) (ustr ''text'') dflt = Inr (JString body)"
  by (simp add: add_hotword_raw_def add_hotword_rw_def add_to_def Let_def bind_err_def
        new_hotword_fields)

theorem add_prepends_new_entry_witness:
  \<open>add_hotword_raw sample_loads sample_dumps sample_text sample_now
       (ustr ''foo'') (ustr ''again'')
     = Inr \<lparr>out_report = Added (ustr ''foo''),
            out_hotwords =
              [JObject [(ustr ''hw_id'', JString (ustr ''1762300800123'')),
                        (ustr ''key'', JString (ustr ''foo'')),
                        (ustr ''text'', JString (ustr ''again''))],
               entry_foo],
            out_effects =
              [KvSet (sample_dumps
                        (JArray [new_hotword sample_now (ustr ''foo'') (ustr ''again''),
                                 entry_foo])) KEY,
               RestartWeType]\<rparr>
   \<and> add_hotword_rw sample_loads sample_dumps (ustr ''[{"key":"b"}]'') sample_now
         (ustr ''b'') (ustr ''x'')
       = Inr \<lparr>out_report = Added (ustr ''b''),
              out_hotwords = [new_hotword sample_now (ustr ''b'') (ustr ''x''), entry_b],
              out_effects =
                [KvSet (ustr ''[{"hw_id": "1762300800123", "key": "b", "text": "x"}, {"key": "b"}]'')
                   KEY]\<rparr>\<close>
proof -
  note inst = add_prepends_new_entry[of sample_dumps _ _ sample_now _ _ sample_loads]
  from inst[of _ "[entry_foo]" "ustr ''foo''" "ustr ''again''" sample_text] sample_read have
    a: "add_hotword_raw sample_loads sample_dumps sample_text sample_now
          (ustr ''foo'') (ustr ''again'')
        = Inr \<lparr>out_report = Added (ustr ''foo''),
               out_hotwords = [new_hotword sample_now (ustr ''foo'') (ustr ''again''), entry_foo],
               out_effects =
                 [KvSet (sample_dumps
                           (JArray [new_hotword sample_now (ustr ''foo'') (ustr ''again''),
                                    entry_foo])) KEY,
                  RestartWeType]\<rparr>"
    by blast
  from inst[of _ "[entry_b]" "ustr ''b''" "ustr ''x''" _ \<open>ustr ''[{"key":"b"}]''\<close>] sample_stored have
    b: \<open>add_hotword_rw sample_loads sample_dumps (ustr ''[{"key":"b"}]'') sample_now
         (ustr ''b'') (ustr ''x'')
       = Inr \<lparr>out_report = Added (ustr ''b''),
              out_hotwords = [new_hotword sample_now (ustr ''b'') (ustr ''x''), entry_b],
              out_effects =
                [KvSet (sample_dumps (JArray [new_hotword sample_now (ustr ''b'') (ustr ''x''), entry_b]))
                   KEY]\<rparr>\<close>
    by blast
  have d: \<open>sample_dumps (JArray [new_hotword sample_now (ustr ''b'') (ustr ''x''), entry_b])
      = ustr ''[{"hw_id": "1762300800123", "key": "b", "text": "x"}, {"key": "b"}]''\<close>
    by (simp add: new_hotword_def entry_b_def sample_now_str) (simp add: ustr_def)
  have n: "new_hotword sample_now (ustr ''foo'') (ustr ''again'')
      = JObject [(ustr ''hw_id'', JString (ustr ''1762300800123'')),
                 (ustr ''key'', JString (ustr ''foo'')),
                 (ustr ''text'', JString (ustr ''again''))]"
    by (simp add: new_hotword_def sample_now_str)
  from a b show ?thesis unfolding d by (simp add: n[symmetric])
qed

text \<open>
  C7 fails on the code. The handler at line 84 names \<open>json.JSONDecodeError\<close> only. On a
  store file whose first value under the key is an array holding one integer of 5000
  digits, \<open>json.loads\<close> raises \<open>ValueError\<close> on the span that is cut out; the exception
  is not caught and \<open>read_raw_hotwords\<close> ends with it, although the next occurrence of
  the key holds a list that decodes and would be accepted. With that array alone under
  the key, every candidate fails to decode and the scan raises instead of returning the
  empty list.
\<close>

theorem scan_aborts_on_uncaught_decode_error:
  \<open>hotword_positions big_int_text = [0, 5013]
   \<and> candidate_span big_int_text 0 = Some big_int_span
   \<and> loads_big big_int_span = Uncaught ValueError
   \<and> candidate_span big_int_text 5013 = Some (ustr ''[{"key":"b"}]'')
   \<and> loads_big (ustr ''[{"key":"b"}]'') = Decoded (JArray [entry_b])
   \<and> accept_hotwords (JArray [entry_b]) = Some [entry_b]
   \<and> read_raw_hotwords loads_big big_int_text = Inl ValueError
   \<and> hotword_positions (KEY @ big_int_span) = [0]
   \<and> read_raw_hotwords loads_big (KEY @ big_int_span) = Inl ValueError\<close>
proof -
  have a: "scan_loop loads_big big_int_text [] ([] @ 0 # [5013]) = Inl ValueError"
    by (rule scan_loop_raise) (simp_all add: big_int_raises)
  have b: "scan_loop loads_big (KEY @ big_int_span) [] ([] @ 0 # []) = Inl ValueError"
    by (rule scan_loop_raise) (simp_all add: big_int_raises)
  from a have "read_raw_hotwords loads_big big_int_text = Inl ValueError"
    by (simp add: read_raw_hotwords_def all_hotwords_def big_int_positions)
  moreover from b have "read_raw_hotwords loads_big (KEY @ big_int_span) = Inl ValueError"
    by (simp add: read_raw_hotwords_def all_hotwords_def big_int_positions)
  moreover have "loads_big big_int_span = Uncaught ValueError"
    by (simp add: loads_big_def)
  ultimately show ?thesis
    using big_int_positions big_int_spans big_int_second_span big_int_second_decoded
      sample_accept(2)
    by simp
qed

text \<open>
  C8 fails on the code. The one-entry collection whose body is a closing bracket is
  obtained by decoding a store text that writes the bracket as an escape. Its encoding,
  stored under the key and scanned again, is not recovered: the bracket matcher counts the
  bracket inside the string literal, cuts the span off there, the shortened span does
  not decode, and \<open>read_raw_hotwords\<close> returns the empty list. \<open>get_hotwords\<close> of
  \<open>wetype_rw.py\<close>, which decodes the stored value as a whole, gives the collection back.
\<close>

theorem round_trip_lost_on_bracket_in_text:
  \<open>read_raw_hotwords loads_rb (KEY @ escaped_rb) = Inr [entry_rb]
   \<and> sample_dumps (JArray [entry_rb]) = blob_rb
   \<and> loads_rb blob_rb = Decoded (JArray [entry_rb])
   \<and> candidate_span (KEY @ blob_rb) 0 = Some (ustr ''[{"hw_id": "1", "key": "k", "text": "]'')
   \<and> loads_rb (ustr ''[{"hw_id": "1", "key": "k", "text": "]'') = JSONDecodeError
   \<and> read_raw_hotwords loads_rb (KEY @ blob_rb) = Inr []
   \<and> get_hotwords loads_rb blob_rb = Inr (JArray [entry_rb])\<close>
proof -
  have "blob_rb \<noteq> []" by (simp add: blob_rb_def ustr_def)
  then have c: "get_hotwords loads_rb blob_rb = Inr (JArray [entry_rb])"
    by (simp add: get_hotwords_def decoded_rb)
  have "accepted_at loads_rb (KEY @ escaped_rb) 0 = Some [entry_rb]"
    by (simp add: accepted_at_def spans_rb decoded_rb accept_rb del: accept_hotwords.simps)
  then have a: "read_raw_hotwords loads_rb (KEY @ escaped_rb) = Inr [entry_rb]"
    by (simp add: read_raw_hotwords_def all_hotwords_no_raise loads_rb_no_raise positions_rb
          max_by_len_def)
  have "accepted_at loads_rb (KEY @ blob_rb) 0 = None"
    by (simp add: accepted_at_def spans_rb decoded_rb)
  then have b: "read_raw_hotwords loads_rb (KEY @ blob_rb) = Inr []"
    by (simp add: read_raw_hotwords_def all_hotwords_no_raise loads_rb_no_raise positions_rb)
  from a b c dumps_rb decoded_rb spans_rb show ?thesis by simp
qed

text \<open>
  C9 (as amended). A successful export of \<open>wetype_raw.py\<close>, and one of \<open>wetype_rw.py\<close>
  on a stored list, is a dict with exactly the fields \<open>exported_at\<close>, \<open>count\<close> and
  \<open>hotwords\<close>: the timestamp string, the number of entries, and the entries in their
  order. A successful export of \<open>wetype_tool.py\<close> has the field \<open>source\<close> as well,
  between \<open>count\<close> and \<open>hotwords\<close>, and its \<open>hotwords\<close> are the entries as
  \<open>parse_hotwords\<close> reshapes them, one for each entry.
\<close>

theorem export_data_fields:
  "(export_hotwords_raw loads text ts = Inr (Some e) \<longrightarrow>
      (\<exists>hotwords. read_raw_hotwords loads text = Inr hotwords \<and> hotwords \<noteq> []
          \<and> e = JObject [(ustr ''exported_at'', JString ts),
                         (ustr ''count'', JInt (int (length hotwords))),
                         (ustr ''hotwords'', JArray hotwords)])
      \<and> fields e = [ustr ''exported_at'', ustr ''count'', ustr ''hotwords''])
   \<and> (get_hotwords loads stored = Inr (JArray hs) \<longrightarrow>
        export_hotwords_rw loads stored ts =
          Inr (JObject [(ustr ''exported_at'', JString ts),
                        (ustr ''count'', JInt (int (length hs))),
                        (ustr ''hotwords'', JArray hs)]))
   \<and> (export_hotwords_tool raw source ts = Inr (Some e') \<longrightarrow>
        (\<exists>items parsed. raw = Some items \<and> items \<noteq> []
            \<and> parse_hotwords items = Inr parsed \<and> length parsed = length items
            \<and> e' = JObject [(ustr ''exported_at'', JString ts),
                            (ustr ''count'', JInt (int (length items))),
                            (ustr ''source'', JString source),
                            (ustr ''hotwords'', JArray parsed)])
        \<and> fields e' = [ustr ''exported_at'', ustr ''count'', ustr ''source'', ustr ''hotwords''])"
proof (intro conjI impI)
  assume "export_hotwords_raw loads text ts = Inr (Some e)"
  then obtain hotwords where r: "read_raw_hotwords loads text = Inr hotwords"
    and ne: "hotwords \<noteq> []"
    and e: "e = JObject [(ustr ''exported_at'', JString ts),
                     (ustr ''count'', JInt (int (length hotwords))),
                     (ustr ''hotwords'', JArray hotwords)]"
    by (cases "read_raw_hotwords loads text")
       (auto simp: export_hotwords_raw_def bind_err_def split: if_splits)
  from r ne e show "\<exists>hotwords. read_raw_hotwords loads text = Inr hotwords \<and> hotwords \<noteq> []
          \<and> e = JObject [(ustr ''exported_at'', JString ts),
                         (ustr ''count'', JInt (int (length hotwords))),
                         (ustr ''hotwords'', JArray hotwords)]"
    by blast
  from e show "fields e = [ustr ''exported_at'', ustr ''count'', ustr ''hotwords'']" by simp
next
  assume "get_hotwords loads stored = Inr (JArray hs)"
  then show "export_hotwords_rw loads stored ts =
          Inr (JObject [(ustr ''exported_at'', JString ts),
                        (ustr ''count'', JInt (int (length hs))),
                        (ustr ''hotwords'', JArray hs)])"
    by (simp add: export_hotwords_rw_def bind_err_def)
next
  assume h: "export_hotwords_tool raw source ts = Inr (Some e')"
  then obtain items where raw: "raw = Some items" and ne: "items \<noteq> []"
    by (cases raw; cases "the raw") (auto simp: export_hotwords_tool_def)
  from ne obtain x xs where items: "items = x # xs" by (cases items) auto
  from h raw items obtain parsed where
    p: "parse_hotwords items = Inr parsed"
    and e: "e' = JObject [(ustr ''exported_at'', JString ts),
                            (ustr ''count'', JInt (int (length parsed))),
                            (ustr ''source'', JString source),
                            (ustr ''hotwords'', JArray parsed)]"
    by (cases "parse_hotwords items") (auto simp: export_hotwords_tool_def bind_err_def)
  from p have len: "length parsed = length items" by (rule parse_hotwords_length)
  from raw ne p len e show "\<exists>items parsed. raw = Some items \<and> items \<noteq> []
            \<and> parse_hotwords items = Inr parsed \<and> length parsed = length items
            \<and> e' = JObject [(ustr ''exported_at'', JString ts),
                            (ustr ''count'', JInt (int (length items))),
                            (ustr ''source'', JString source),
                            (ustr ''hotwords'', JArray parsed)]"
    by auto
  from e show "fields e' = [ustr ''exported_at'', ustr ''count'', ustr ''source'', ustr ''hotwords'']"
    by simp
qed

theorem export_data_fields_witness:
  \<open>export_hotwords_raw sample_loads sample_text sample_ts =
     Inr (Some (JObject [(ustr ''exported_at'', JString sample_ts),
                         (ustr ''count'', JInt 1),
                         (ustr ''hotwords'', JArray [entry_foo])]))
   \<and> fields (JObject [(ustr ''exported_at'', JString sample_ts),
                      (ustr ''count'', JInt 1),
                      (ustr ''hotwords'', JArray [entry_foo])])
       = [ustr ''exported_at'', ustr ''count'', ustr ''hotwords'']
   \<and> export_hotwords_rw sample_loads (ustr ''[{"key":"b"}]'') sample_ts =
       Inr (JObject [(ustr ''exported_at'', JString sample_ts),
                     (ustr ''count'', JInt 1),
                     (ustr ''hotwords'', JArray [entry_b])])
   \<and> export_hotwords_tool (Some [entry_foo]) sample_source sample_ts = Inr (Some sample_tool_export)
   \<and> fields sample_tool_export
       = [ustr ''exported_at'', ustr ''count'', ustr ''source'', ustr ''hotwords'']\<close>
proof -
  note inst = export_data_fields[of sample_loads _ sample_ts]
  from inst[of sample_text _ _ _ _ _ _] sample_raw_export have
    a: "fields (JObject [(ustr ''exported_at'', JString sample_ts),
                      (ustr ''count'', JInt 1),
                      (ustr ''hotwords'', JArray [entry_foo])])
       = [ustr ''exported_at'', ustr ''count'', ustr ''hotwords'']"
    by blast
  from inst[of _ _ \<open>ustr ''[{"key":"b"}]''\<close> "[entry_b]"] sample_stored have
    b: \<open>export_hotwords_rw sample_loads (ustr ''[{"key":"b"}]'') sample_ts =
       Inr (JObject [(ustr ''exported_at'', JString sample_ts),
                     (ustr ''count'', JInt (int (length [entry_b]))),
                     (ustr ''hotwords'', JArray [entry_b])])\<close>
    by blast
  from inst[of _ _ _ _ "Some [entry_foo]" sample_source sample_tool_export] sample_tool_run have
    c: "fields sample_tool_export
       = [ustr ''exported_at'', ustr ''count'', ustr ''source'', ustr ''hotwords'']"
    by blast
  from a b c sample_raw_export sample_tool_run show ?thesis by simp
qed

text \<open>
  C9 as stated fails for \<open>wetype_tool.py\<close>: its export of the one-entry collection of
  the scenario has the four fields \<open>exported_at\<close>, \<open>count\<close>, \<open>source\<close> and
  \<open>hotwords\<close>, not the three of the claim.
\<close>

theorem export_tool_counterexample:
  "export_hotwords_tool (Some [entry_foo]) sample_source sample_ts = Inr (Some sample_tool_export)
   \<and> fields sample_tool_export
       = [ustr ''exported_at'', ustr ''count'', ustr ''source'', ustr ''hotwords'']
   \<and> fields sample_tool_export \<noteq> [ustr ''exported_at'', ustr ''count'', ustr ''hotwords'']"
proof -
  have "fields sample_tool_export
       = [ustr ''exported_at'', ustr ''count'', ustr ''source'', ustr ''hotwords'']"
    by (simp add: sample_tool_export_def)
  with sample_tool_run field_names_differ show ?thesis by simp
qed

text \<open>
  C10 fails on the code. In \<open>read_hotwords_raw\<close> of \<open>wetype_tool.py\<close> the pattern loop
  asks for a non-empty list, as \<open>read_raw_hotwords\<close> does, but the fallback of the same
  function returns any decoded list. When the output of \<open>strings\<close> holds the key on one
  line and an empty array on the next, the pattern loop passes over the array, the fallback
  decodes it and the function returns the empty list. \<open>export_hotwords\<close> then treats
  the empty list as it treats \<open>None\<close> and writes nothing.
\<close>

theorem fallback_returns_empty_array:
  "sample_loads (ustr ''[    ]'') = Decoded (JArray [])
   \<and> split_lines empty_array_content = [KEY, ustr ''[    ]'', []]
   \<and> try_patterns sample_loads empty_array_matches = Inr None
   \<and> fallback_loop sample_loads (split_lines empty_array_content) = Some []
   \<and> read_hotwords_raw True sample_loads empty_array_matches empty_array_content = Inr (Some [])
   \<and> export_hotwords_tool (Some []) sample_source sample_ts = Inr None"
proof -
  have "read_hotwords_raw True sample_loads empty_array_matches empty_array_content = Inr (Some [])"
    by (simp add: read_hotwords_raw_def empty_array_patterns empty_array_fallback)
  moreover have "export_hotwords_tool (Some []) sample_source sample_ts = Inr None"
    by (simp add: export_hotwords_tool_def)
  ultimately show ?thesis
    using sample_decoded(5) empty_array_lines empty_array_patterns empty_array_fallback
    by simp
qed

end
